theory Spec2Isabelle
  imports Main
begin

section \<open>The icon generator of generate-icons.py\<close>

text \<open>
  The script has one function, \<^verbatim>\<open>generate_icons()\<close>. Everything it does goes through
  four collaborators that are not part of the repository: \<^verbatim>\<open>os.path.exists\<close>,
  \<^verbatim>\<open>os.makedirs\<close>, Pillow's \<^verbatim>\<open>Image.open\<close> / \<^verbatim>\<open>Image.resize\<close> / \<^verbatim>\<open>Image.save\<close>,
  and \<^verbatim>\<open>print\<close>. The function is embedded with explicit state passing over a world
  that holds the file system and the ordered trace of every collaborator call; what
  \<^verbatim>\<open>os.makedirs\<close> and Pillow do is a parameter of the model, so the theorems hold for
  every behaviour of these collaborators unless a hypothesis names a contract.
\<close>

subsection \<open>Data\<close>

type_synonym path = string

text \<open>Values a Python function can hand to its caller; the script only ever returns \<^verbatim>\<open>None\<close>.\<close>

datatype pyval = PyNone | PyBool bool | PyInt int | PyStr string

text \<open>
  An instance of \<^verbatim>\<open>Exception\<close> with the text that \<^verbatim>\<open>str(e)\<close> gives. The collaborators
  raise instances of \<^verbatim>\<open>Exception\<close> (\<^verbatim>\<open>OSError\<close>, \<^verbatim>\<open>ValueError\<close>,
  \<^verbatim>\<open>UnidentifiedImageError\<close>, ...), which is what \<^verbatim>\<open>except Exception as e\<close> matches;
  asynchronous interrupts are outside the model.
\<close>

datatype exn = Exception (message: string)

text \<open>The constants of \<^verbatim>\<open>Image.Resampling\<close>.\<close>

datatype resampling = NEAREST | BOX | BILINEAR | HAMMING | BICUBIC | LANCZOS

text \<open>
  The pixels of a raster are not computed: they are either the pixels that a file holds,
  or what resampling a raster to a size with a filter yields.
\<close>

datatype raster = Pixels "nat list" | Resampled raster "int \<times> int" resampling

text \<open>A Pillow image: \<^verbatim>\<open>img.size\<close> is the pair (width, height), \<^verbatim>\<open>img.mode\<close> is "RGB",
  "RGBA", "L", "P" (palette), "1" (bilevel), ...\<close>

record image =
  img_size :: "int \<times> int"
  img_mode :: string
  img_data :: raster

text \<open>
  A path names a directory or a regular file. A regular file either holds the encoding
  of an image (\<open>Some img\<close>) or any other bytes (\<open>None\<close>).
\<close>

datatype node = Dir | File "image option"

type_synonym filesystem = "path \<rightharpoonup> node"

text \<open>
  The collaborators whose behaviour the script does not define. Each may raise:
  \<^item> \<open>os_makedirs p exist_ok fs\<close> returns the new file system or raises;
  \<^item> \<open>Image_open p fs\<close> returns the decoded image or raises;
  \<^item> \<open>Image_resize img size resample\<close> returns the resampled image or raises;
  \<^item> \<open>Image_save img p format fs\<close> returns the file system it leaves behind, together
    with the exception it raised, if any (a failed save may leave the target changed).
\<close>

record collab =
  os_makedirs :: "path \<Rightarrow> bool \<Rightarrow> filesystem \<Rightarrow> exn + filesystem"
  Image_open :: "path \<Rightarrow> filesystem \<Rightarrow> exn + image"
  Image_resize :: "image \<Rightarrow> int \<times> int \<Rightarrow> resampling \<Rightarrow> exn + image"
  Image_save :: "image \<Rightarrow> path \<Rightarrow> string \<Rightarrow> filesystem \<Rightarrow> exn option \<times> filesystem"

text \<open>Every call the script makes to a collaborator, with its arguments, in program order.\<close>

datatype event =
    Exists path
  | Makedirs path bool
  | Open path
  | Resize image "int \<times> int" resampling
  | Save image path string
  | Print string

record world =
  fs :: filesystem
  trace :: "event list"

subsection \<open>Python's \<^verbatim>\<open>str\<close> on integers, as the f-strings use it\<close>

definition digit_chars :: string where
  "digit_chars = ''0123456789''"

fun str_nat :: "nat \<Rightarrow> string" where
  "str_nat n =
     (if n < 10 then [digit_chars ! n]
      else str_nat (n div 10) @ [digit_chars ! (n mod 10)])"

declare str_nat.simps [simp del]

definition str :: "int \<Rightarrow> string" where
  "str i = (if i < 0 then CHR ''-'' # str_nat (nat (- i)) else str_nat (nat i))"

subsection \<open>The script\<close>

text \<open>\<^verbatim>\<open>SIZES = [72, 96, 128, 144, 152, 192, 384, 512]\<close>\<close>

definition SIZES :: "int list" where
  "SIZES = [72, 96, 128, 144, 152, 192, 384, 512]"

text \<open>\<^verbatim>\<open>source = "speech-bubble.png"\<close>\<close>

definition source :: path where
  "source = ''speech-bubble.png''"

definition call :: "event \<Rightarrow> world \<Rightarrow> world" where
  "call ev w = w\<lparr>trace := trace w @ [ev]\<rparr>"

definition print :: "string \<Rightarrow> world \<Rightarrow> world" where
  "print s w = call (Print s) w"

text \<open>\<^verbatim>\<open>output_path = f"icons/icon-{size}.png"\<close>\<close>

definition output_path :: "int \<Rightarrow> path" where
  "output_path sz = ''icons/icon-'' @ str sz @ ''.png''"

text \<open>
  The \<^verbatim>\<open>for size in SIZES\<close> loop. The result is the exception that left the loop, if
  any, and the world at that point.
  \<^verbatim>\<open>
        for size in SIZES:
            resized = img.resize((size, size), Image.Resampling.LANCZOS)
            output_path = f"icons/icon-{size}.png"
            resized.save(output_path, "PNG")
            print(f"Generated: {output_path}")
  \<close>
\<close>

fun for_sizes :: "collab \<Rightarrow> image \<Rightarrow> int list \<Rightarrow> world \<Rightarrow> exn option \<times> world" where
  "for_sizes E img [] w = (None, w)"
| "for_sizes E img (sz # rest) w =
     (let w1 = call (Resize img (sz, sz) LANCZOS) w in
      case Image_resize E img (sz, sz) LANCZOS of
        Inl e \<Rightarrow> (Some e, w1)
      | Inr resized \<Rightarrow>
          (let w2 = call (Save resized (output_path sz) ''PNG'') w1 in
           case Image_save E resized (output_path sz) ''PNG'' (fs w2) of
             (Some e, fs') \<Rightarrow> (Some e, w2\<lparr>fs := fs'\<rparr>)
           | (None, fs') \<Rightarrow>
               for_sizes E img rest
                 (print (''Generated: '' @ output_path sz) (w2\<lparr>fs := fs'\<rparr>))))"

text \<open>\<^verbatim>\<open>f"Source image: {img.size[0]}x{img.size[1]}"\<close>\<close>

definition source_line :: "image \<Rightarrow> string" where
  "source_line img =
     ''Source image: '' @ str (fst (img_size img)) @ ''x'' @ str (snd (img_size img))"

text \<open>
  The body of the \<^verbatim>\<open>try\<close> statement.
  \<^verbatim>\<open>
        img = Image.open(source)
        print(f"Source image: {img.size[0]}x{img.size[1]}")
        for size in SIZES: ...
        print("\nAll icons generated successfully!")
        print("Update manifest.json to reference these icons.")
  \<close>
\<close>

definition try_body :: "collab \<Rightarrow> world \<Rightarrow> exn option \<times> world" where
  "try_body E w =
     (let w1 = call (Open source) w in
      case Image_open E source (fs w1) of
        Inl e \<Rightarrow> (Some e, w1)
      | Inr img \<Rightarrow>
          (let w2 = print (source_line img) w1 in
           case for_sizes E img SIZES w2 of
             (Some e, w3) \<Rightarrow> (Some e, w3)
           | (None, w3) \<Rightarrow>
               (None, print ''Update manifest.json to reference these icons.''
                        (print (CHR 0x0A # ''All icons generated successfully!'') w3))))"

text \<open>
  \<^verbatim>\<open>generate_icons()\<close>. \<open>Inr v\<close> is a normal return of \<open>v\<close>, \<open>Inl e\<close> an exception that
  reaches the caller.
  \<^verbatim>\<open>
    if not os.path.exists(source):
        print(f"Error: {source} not found")
        return
    os.makedirs("icons", exist_ok=True)
    try:
        ...
    except Exception as e:
        print(f"Error generating icons: {e}")
  \<close>
  \<^verbatim>\<open>os.makedirs\<close> is called before the \<^verbatim>\<open>try\<close> statement is entered.
\<close>

definition generate_icons :: "collab \<Rightarrow> world \<Rightarrow> (exn + pyval) \<times> world" where
  "generate_icons E w =
     (let w0 = call (Exists source) w in
      if \<not> (fs w0 source \<noteq> None) then
        (Inr PyNone, print (''Error: '' @ source @ '' not found'') w0)
      else
        (let w1 = call (Makedirs ''icons'' True) w0 in
         case os_makedirs E ''icons'' True (fs w1) of
           Inl e \<Rightarrow> (Inl e, w1)
         | Inr fs' \<Rightarrow>
             (case try_body E (w1\<lparr>fs := fs'\<rparr>) of
                (None, w2) \<Rightarrow> (Inr PyNone, w2)
              | (Some e, w2) \<Rightarrow>
                  (Inr PyNone, print (''Error generating icons: '' @ message e) w2))))"

text \<open>One run of the script in a working directory whose content is \<open>fs0\<close>.\<close>

definition run :: "collab \<Rightarrow> filesystem \<Rightarrow> (exn + pyval) \<times> world" where
  "run E fs0 = generate_icons E \<lparr>fs = fs0, trace = []\<rparr>"

subsection \<open>Observations on a run\<close>

text \<open>The lines written to standard output, in order.\<close>

fun stdout :: "event list \<Rightarrow> string list" where
  "stdout [] = []"
| "stdout (Print s # evs) = s # stdout evs"
| "stdout (_ # evs) = stdout evs"

text \<open>The calls of \<^verbatim>\<open>save\<close>, in order: target path and image.\<close>

fun saves :: "event list \<Rightarrow> (path \<times> image) list" where
  "saves [] = []"
| "saves (Save img p fmt # evs) = (p, img) # saves evs"
| "saves (_ # evs) = saves evs"

subsection \<open>Contracts of the collaborators\<close>

text \<open>
  The script relies on what Pillow and the operating system promise. Each promise is a
  predicate on the collaborators, and a theorem names the ones it needs.
\<close>

text \<open>\<^verbatim>\<open>resize(size, ...)\<close> returns an image whose \<^verbatim>\<open>size\<close> is the requested one.\<close>

definition resize_contract :: "collab \<Rightarrow> bool" where
  "resize_contract E \<longleftrightarrow>
     (\<forall>img sz f r. Image_resize E img sz f = Inr r \<longrightarrow> img_size r = sz)"

text \<open>A \<^verbatim>\<open>save\<close> that returns has stored the encoding of the image at the target path.\<close>

definition save_contract :: "collab \<Rightarrow> bool" where
  "save_contract E \<longleftrightarrow>
     (\<forall>img p fmt fs0 fs1. Image_save E img p fmt fs0 = (None, fs1) \<longrightarrow>
        fs1 p = Some (File (Some img)))"

text \<open>\<^verbatim>\<open>save\<close>, whether it returns or raises, touches no path but its target.\<close>

definition save_frame :: "collab \<Rightarrow> bool" where
  "save_frame E \<longleftrightarrow>
     (\<forall>img p fmt fs0 r fs1 q. Image_save E img p fmt fs0 = (r, fs1) \<longrightarrow> q \<noteq> p \<longrightarrow>
        fs1 q = fs0 q)"


text \<open>
  \<^verbatim>\<open>os.makedirs\<close> on a path of one component, when it returns, has made that path a
  directory and touched nothing else.
\<close>

definition makedirs_contract :: "collab \<Rightarrow> bool" where
  "makedirs_contract E \<longleftrightarrow>
     (\<forall>p ok fs0 fs1. os_makedirs E p ok fs0 = Inr fs1 \<longrightarrow> CHR ''/'' \<notin> set p \<longrightarrow>
        fs1 = fs0(p \<mapsto> Dir))"



subsection \<open>A reference behaviour of the collaborators\<close>

text \<open>
  One concrete behaviour, without faults of the disk or of permissions, on which the
  theorems are exercised: \<^verbatim>\<open>os.makedirs\<close> raises \<^verbatim>\<open>FileExistsError\<close> when the path is
  taken by a regular file (also with \<^verbatim>\<open>exist_ok=True\<close>), \<^verbatim>\<open>Image.open\<close> raises on
  anything that is not an encoded image, \<^verbatim>\<open>resize\<close> raises \<^verbatim>\<open>ValueError\<close> on a size
  that is not positive, and \<^verbatim>\<open>save\<close> raises when its target is a directory. As Pillow
  documents for \<^verbatim>\<open>Image.resize\<close>, the filter applied to an image of mode "1" or "P" is
  always \<^verbatim>\<open>NEAREST\<close>, whatever filter the caller passes; the source's proportions play
  no part.
\<close>

definition posix_makedirs :: "path \<Rightarrow> bool \<Rightarrow> filesystem \<Rightarrow> exn + filesystem" where
  "posix_makedirs p exist_ok fs0 =
     (case fs0 p of
        None \<Rightarrow> Inr (fs0(p \<mapsto> Dir))
      | Some Dir \<Rightarrow>
          if exist_ok then Inr fs0 else Inl (Exception (''[Errno 17] File exists: '' @ p))
      | Some (File c) \<Rightarrow> Inl (Exception (''[Errno 17] File exists: '' @ p)))"

definition pillow_open :: "path \<Rightarrow> filesystem \<Rightarrow> exn + image" where
  "pillow_open p fs0 =
     (case fs0 p of
        None \<Rightarrow> Inl (Exception (''[Errno 2] No such file or directory: '' @ p))
      | Some Dir \<Rightarrow> Inl (Exception (''[Errno 21] Is a directory: '' @ p))
      | Some (File None) \<Rightarrow> Inl (Exception (''cannot identify image file '' @ p))
      | Some (File (Some img)) \<Rightarrow> Inr img)"

definition applied_filter :: "image \<Rightarrow> resampling \<Rightarrow> resampling" where
  "applied_filter img f = (if img_mode img = ''1'' \<or> img_mode img = ''P'' then NEAREST else f)"

definition pillow_resize :: "image \<Rightarrow> int \<times> int \<Rightarrow> resampling \<Rightarrow> exn + image" where
  "pillow_resize img sz f =
     (if fst sz \<le> 0 \<or> snd sz \<le> 0 then Inl (Exception ''height and width must be > 0'')
      else Inr (img\<lparr>img_size := sz,
                     img_data := Resampled (img_data img) sz (applied_filter img f)\<rparr>))"

definition pillow_save ::
  "image \<Rightarrow> path \<Rightarrow> string \<Rightarrow> filesystem \<Rightarrow> exn option \<times> filesystem" where
  "pillow_save img p fmt fs0 =
     (if fmt \<noteq> ''PNG'' then (Some (Exception fmt), fs0)
      else case fs0 p of
        Some Dir \<Rightarrow> (Some (Exception (''[Errno 21] Is a directory: '' @ p)), fs0)
      | _ \<Rightarrow> (None, fs0(p \<mapsto> File (Some img))))"

definition reference :: collab where
  "reference =
     \<lparr>os_makedirs = posix_makedirs, Image_open = pillow_open,
      Image_resize = pillow_resize, Image_save = pillow_save\<rparr>"

text \<open>The same collaborators in front of a source file whose header decodes and whose
  pixel data is cut off: Pillow reads the pixels when \<^verbatim>\<open>resize\<close> first needs them, and
  raises there.\<close>

definition truncated :: collab where
  "truncated =
     reference\<lparr>Image_resize := \<lambda>img sz f. Inl (Exception ''image file is truncated'')\<rparr>"

text \<open>Working directories: a square source, a source that is wider than high, a source
  with a palette, a source that is not an image, a regular file in the place of the icons
  directory, and a directory in the place of the third icon.\<close>

definition bubble :: image where
  "bubble = \<lparr>img_size = (1024, 1024), img_mode = ''RGBA'', img_data = Pixels [1, 2, 3]\<rparr>"

definition banner :: image where
  "banner = \<lparr>img_size = (640, 480), img_mode = ''RGB'', img_data = Pixels [4, 5]\<rparr>"


definition fs_square :: filesystem where
  "fs_square = [''speech-bubble.png'' \<mapsto> File (Some bubble)]"

definition fs_wide :: filesystem where
  "fs_wide = [''speech-bubble.png'' \<mapsto> File (Some banner)]"


definition fs_corrupt :: filesystem where
  "fs_corrupt = [''speech-bubble.png'' \<mapsto> File None]"

definition fs_icons_is_file :: filesystem where
  "fs_icons_is_file = [''speech-bubble.png'' \<mapsto> File (Some bubble), ''icons'' \<mapsto> File None]"

definition fs_blocked :: filesystem where
  "fs_blocked =
     [''speech-bubble.png'' \<mapsto> File (Some bubble), ''icons'' \<mapsto> Dir,
      ''icons/icon-128.png'' \<mapsto> Dir]"

definition fs_empty :: filesystem where
  "fs_empty = Map.empty"

text \<open>A line that reports an error: both error messages of the script start with it.\<close>

definition error_reported :: "event list \<Rightarrow> bool" where
  "error_reported evs \<longleftrightarrow> (\<exists>l\<in>set (stdout evs). take 5 l = ''Error'')"

text \<open>The world in which the \<^verbatim>\<open>try\<close> statement is entered, after \<^verbatim>\<open>os.makedirs\<close> has
  returned the file system \<open>fs1\<close>.\<close>

definition at_try :: "filesystem \<Rightarrow> world" where
  "at_try fs1 = \<lparr>fs = fs1, trace = [Exists source, Makedirs ''icons'' True]\<rparr>"

text \<open>The image that the loop saves for a size, when \<^verbatim>\<open>resize\<close> returns.\<close>

definition resized :: "collab \<Rightarrow> image \<Rightarrow> int \<Rightarrow> image" where
  "resized E img sz =
     (case Image_resize E img (sz, sz) LANCZOS of Inr r \<Rightarrow> r | Inl e \<Rightarrow> img)"

text \<open>The calls of one complete iteration of the loop.\<close>

definition icon_events :: "collab \<Rightarrow> image \<Rightarrow> int \<Rightarrow> event list" where
  "icon_events E img sz =
     [Resize img (sz, sz) LANCZOS,
      Save (resized E img sz) (output_path sz) ''PNG'',
      Print (''Generated: '' @ output_path sz)]"

text \<open>The calls of an iteration that \<open>e\<close> cuts short: \<^verbatim>\<open>resize\<close> raised \<open>e\<close>, or
  \<^verbatim>\<open>resize\<close> returned and \<^verbatim>\<open>save\<close> raised \<open>e\<close>.\<close>

definition failed_step :: "collab \<Rightarrow> image \<Rightarrow> int \<Rightarrow> exn \<Rightarrow> event list \<Rightarrow> bool" where
  "failed_step E img sz e evs \<longleftrightarrow>
     (evs = [Resize img (sz, sz) LANCZOS] \<and> Image_resize E img (sz, sz) LANCZOS = Inl e) \<or>
     (evs = [Resize img (sz, sz) LANCZOS, Save (resized E img sz) (output_path sz) ''PNG''] \<and>
      Image_resize E img (sz, sz) LANCZOS = Inr (resized E img sz) \<and>
      (\<exists>fs0. fst (Image_save E (resized E img sz) (output_path sz) ''PNG'' fs0) = Some e))"

text \<open>The file system after \<^verbatim>\<open>save\<close> has been called, in list order, on the resized
  image of each size of a list.\<close>

definition fs_after :: "collab \<Rightarrow> image \<Rightarrow> int list \<Rightarrow> filesystem \<Rightarrow> filesystem" where
  "fs_after E img ss fs0 =
     fold (\<lambda>sz f. snd (Image_save E (resized E img sz) (output_path sz) ''PNG'' f)) ss fs0"

text \<open>The collaborators let the first \<open>k\<close> sizes through: for each of them \<^verbatim>\<open>resize\<close>
  returns, and \<^verbatim>\<open>save\<close> returns in the file system that the saves before it have left.\<close>

definition goes_through :: "collab \<Rightarrow> image \<Rightarrow> nat \<Rightarrow> filesystem \<Rightarrow> bool" where
  "goes_through E img k fs1 \<longleftrightarrow>
     (\<forall>j<k. Image_resize E img (SIZES ! j, SIZES ! j) LANCZOS = Inr (resized E img (SIZES ! j)) \<and>
            fst (Image_save E (resized E img (SIZES ! j)) (output_path (SIZES ! j)) ''PNG''
                  (fs_after E img (take j SIZES) fs1)) = None)"

text \<open>No directory stands in the place of an icon.\<close>

definition outputs_free :: "filesystem \<Rightarrow> bool" where
  "outputs_free fs0 \<longleftrightarrow> (\<forall>sz\<in>set SIZES. fs0 (output_path sz) \<noteq> Some Dir)"


text \<open>The two lines that end a run in which every size was processed.\<close>

definition success_lines :: "event list" where
  "success_lines =
     [Print (CHR 0x0A # ''All icons generated successfully!''),
      Print ''Update manifest.json to reference these icons.'']"

text \<open>The path that a call can create or change: only \<^verbatim>\<open>os.makedirs\<close> and \<^verbatim>\<open>save\<close>
  write to the file system.\<close>

fun writes_to :: "event \<Rightarrow> path option" where
  "writes_to (Makedirs p ok) = Some p"
| "writes_to (Save img p fmt) = Some p"
| "writes_to _ = None"

section \<open>Properties\<close>

subsection \<open>The structure of a run\<close>

lemma stdout_append: "stdout (xs @ ys) = stdout xs @ stdout ys"
  by (induction xs rule: stdout.induct) simp_all

lemma saves_append: "saves (xs @ ys) = saves xs @ saves ys"
  by (induction xs rule: saves.induct) simp_all

lemma for_sizes_prefix:
  "for_sizes E img ss w = (r, w') \<Longrightarrow>
     \<exists>k tl. k \<le> length ss \<and>
       trace w' = trace w @ concat (map (icon_events E img) (take k ss)) @ tl \<and>
       (\<forall>s\<in>set (take k ss). Image_resize E img (s, s) LANCZOS = Inr (resized E img s)) \<and>
       (case r of None \<Rightarrow> k = length ss \<and> tl = []
        | Some e \<Rightarrow> k < length ss \<and> failed_step E img (ss ! k) e tl) \<and>
       (save_frame E \<longrightarrow> (\<forall>q. q \<notin> output_path ` set ss \<longrightarrow> fs w' q = fs w q)) \<and>
       (save_frame E \<and> save_contract E \<and> distinct (map output_path ss) \<longrightarrow>
          (\<forall>s\<in>set (take k ss). fs w' (output_path s) = Some (File (Some (resized E img s)))))"
proof (induction ss arbitrary: w)
  case Nil
  then show ?case by simp
next
  case (Cons sz rest)
  show ?case
  proof (cases "Image_resize E img (sz, sz) LANCZOS")
    case (Inl e)
    with Cons.prems have "r = Some e" "trace w' = trace w @ [Resize img (sz, sz) LANCZOS]"
      by (auto simp: call_def)
    moreover from Inl Cons.prems have "fs w' = fs w"
      by (auto simp: call_def)
    ultimately show ?thesis using Inl
      by (intro exI[of _ 0] exI[of _ "[Resize img (sz, sz) LANCZOS]"]) (simp add: failed_step_def)
  next
    case (Inr rz)
    then have rz: "resized E img sz = rz" by (simp add: resized_def)
    let ?w2 = "call (Save rz (output_path sz) ''PNG'') (call (Resize img (sz, sz) LANCZOS) w)"
    have fs2: "fs ?w2 = fs w" by (simp add: call_def)
    obtain x fs' where sv: "Image_save E rz (output_path sz) ''PNG'' (fs ?w2) = (x, fs')"
      by (cases "Image_save E rz (output_path sz) ''PNG'' (fs ?w2)") auto
    have frame1: "save_frame E \<Longrightarrow> q \<noteq> output_path sz \<Longrightarrow> fs' q = fs w q" for q
      using sv fs2 by (auto simp: save_frame_def)
    show ?thesis
    proof (cases x)
      case (Some e)
      with Cons.prems Inr sv have "r = Some e"
        "trace w' = trace w @ [Resize img (sz, sz) LANCZOS, Save rz (output_path sz) ''PNG'']"
        by (auto simp: call_def)
      moreover have "\<exists>fs0. fst (Image_save E rz (output_path sz) ''PNG'' fs0) = Some e"
        using sv Some by (intro exI[of _ "fs ?w2"]) simp
      moreover have "save_frame E \<longrightarrow> (\<forall>q. q \<notin> output_path ` set (sz # rest) \<longrightarrow> fs w' q = fs w q)"
        using Cons.prems Inr sv Some frame1 by (auto simp: call_def)
      ultimately show ?thesis using Inr rz
        by (intro exI[of _ 0] exI[of _ "[Resize img (sz, sz) LANCZOS, Save rz (output_path sz) ''PNG'']"])
           (simp add: failed_step_def)
    next
      case None
      let ?w3 = "print (''Generated: '' @ output_path sz) (?w2\<lparr>fs := fs'\<rparr>)"
      from Cons.prems Inr sv None have rec: "for_sizes E img rest ?w3 = (r, w')"
        by simp
      from Cons.IH[OF rec] obtain k tl where k: "k \<le> length rest"
        and tr: "trace w' = trace ?w3 @ concat (map (icon_events E img) (take k rest)) @ tl"
        and rs: "\<forall>s\<in>set (take k rest). Image_resize E img (s, s) LANCZOS = Inr (resized E img s)"
        and fin: "case r of None \<Rightarrow> k = length rest \<and> tl = []
                  | Some e \<Rightarrow> k < length rest \<and> failed_step E img (rest ! k) e tl"
        and fr: "save_frame E \<longrightarrow> (\<forall>q. q \<notin> output_path ` set rest \<longrightarrow> fs w' q = fs ?w3 q)"
        and fl: "save_frame E \<and> save_contract E \<and> distinct (map output_path rest) \<longrightarrow>
          (\<forall>s\<in>set (take k rest). fs w' (output_path s) = Some (File (Some (resized E img s))))"
        by blast
      have fs3: "fs ?w3 = fs'" by (simp add: print_def call_def)
      have here: "save_contract E \<Longrightarrow> fs' (output_path sz) = Some (File (Some rz))"
        using sv None by (auto simp: save_contract_def)
      have fr': "save_frame E \<longrightarrow> (\<forall>q. q \<notin> output_path ` set (sz # rest) \<longrightarrow> fs w' q = fs w q)"
        using fr fs3 frame1 by auto
      have fl': "save_frame E \<and> save_contract E \<and> distinct (map output_path (sz # rest)) \<longrightarrow>
          (\<forall>s\<in>set (take (Suc k) (sz # rest)). fs w' (output_path s) = Some (File (Some (resized E img s))))"
      proof (intro impI ballI)
        fix s assume a: "save_frame E \<and> save_contract E \<and> distinct (map output_path (sz # rest))"
          and s: "s \<in> set (take (Suc k) (sz # rest))"
        from s have "s = sz \<or> s \<in> set (take k rest)" by auto
        then show "fs w' (output_path s) = Some (File (Some (resized E img s)))"
        proof
          assume "s = sz"
          moreover from a have "output_path sz \<notin> output_path ` set rest" by simp
          ultimately show ?thesis using fr a fs3 here rz by simp
        next
          assume "s \<in> set (take k rest)"
          with fl a show ?thesis by simp
        qed
      qed
      have "trace ?w3 = trace w @ icon_events E img sz"
        by (simp add: print_def call_def icon_events_def rz)
      with tr have "trace w' = trace w @ concat (map (icon_events E img) (take (Suc k) (sz # rest))) @ tl"
        by simp
      moreover have "\<forall>s\<in>set (take (Suc k) (sz # rest)). Image_resize E img (s, s) LANCZOS = Inr (resized E img s)"
        using rs Inr rz by simp
      moreover have "case r of None \<Rightarrow> Suc k = length (sz # rest) \<and> tl = []
                  | Some e \<Rightarrow> Suc k < length (sz # rest) \<and> failed_step E img ((sz # rest) ! Suc k) e tl"
        using fin by (simp split: option.splits)
      moreover have "Suc k \<le> length (sz # rest)" using k by simp
      moreover note fr' fl'
      ultimately show ?thesis by blast
    qed
  qed
qed

lemma run_makedirs_raises:
  "fs0 source \<noteq> None \<Longrightarrow> os_makedirs E ''icons'' True fs0 = Inl e \<Longrightarrow>
     run E fs0 = (Inl e, at_try fs0)"
  by (auto simp add: run_def generate_icons_def call_def at_try_def Let_def)

lemma run_try:
  "fs0 source \<noteq> None \<Longrightarrow> os_makedirs E ''icons'' True fs0 = Inr fs1 \<Longrightarrow>
     run E fs0 =
       (case try_body E (at_try fs1) of
          (None, w2) \<Rightarrow> (Inr PyNone, w2)
        | (Some e, w2) \<Rightarrow> (Inr PyNone, print (''Error generating icons: '' @ message e) w2))"
  by (auto simp add: run_def generate_icons_def call_def at_try_def Let_def)

lemma try_body_decode_fails:
  "Image_open E source (fs w) = Inl e \<Longrightarrow> try_body E w = (Some e, call (Open source) w)"
  by (simp add: try_body_def call_def Let_def)

lemma try_body_decoded:
  assumes "Image_open E source (fs w) = Inr img" and "try_body E w = (r, w')"
  shows "\<exists>k tl. k \<le> length SIZES \<and>
       trace w' = trace w @ [Open source, Print (source_line img)]
                    @ concat (map (icon_events E img) (take k SIZES)) @ tl \<and>
       (\<forall>s\<in>set (take k SIZES). Image_resize E img (s, s) LANCZOS = Inr (resized E img s)) \<and>
       (case r of None \<Rightarrow> k = length SIZES \<and> tl = success_lines
        | Some e \<Rightarrow> k < length SIZES \<and> failed_step E img (SIZES ! k) e tl) \<and>
       (save_frame E \<longrightarrow> (\<forall>q. q \<notin> output_path ` set SIZES \<longrightarrow> fs w' q = fs w q)) \<and>
       (save_frame E \<and> save_contract E \<longrightarrow>
          (\<forall>s\<in>set (take k SIZES). fs w' (output_path s) = Some (File (Some (resized E img s)))))"
proof -
  let ?w2 = "print (source_line img) (call (Open source) w)"
  obtain r0 w3 where loop: "for_sizes E img SIZES ?w2 = (r0, w3)"
    by (cases "for_sizes E img SIZES ?w2") auto
  have d: "distinct (map output_path SIZES)"
    by (simp add: SIZES_def output_path_def str_def str_nat.simps digit_chars_def)
  from for_sizes_prefix[OF loop] d obtain k tl where k: "k \<le> length SIZES"
    and tr: "trace w3 = trace ?w2 @ concat (map (icon_events E img) (take k SIZES)) @ tl"
    and rs: "\<forall>s\<in>set (take k SIZES). Image_resize E img (s, s) LANCZOS = Inr (resized E img s)"
    and fin: "case r0 of None \<Rightarrow> k = length SIZES \<and> tl = []
              | Some e \<Rightarrow> k < length SIZES \<and> failed_step E img (SIZES ! k) e tl"
    and fr: "save_frame E \<longrightarrow> (\<forall>q. q \<notin> output_path ` set SIZES \<longrightarrow> fs w3 q = fs ?w2 q)"
    and fl: "save_frame E \<and> save_contract E \<longrightarrow>
          (\<forall>s\<in>set (take k SIZES). fs w3 (output_path s) = Some (File (Some (resized E img s))))"
    by blast
  have t2: "trace ?w2 = trace w @ [Open source, Print (source_line img)]" and f2: "fs ?w2 = fs w"
    by (simp_all add: print_def call_def)
  show ?thesis
  proof (cases r0)
    case None
    with assms loop have "r = None" and w': "w' = print ''Update manifest.json to reference these icons.''
                        (print (CHR 0x0A # ''All icons generated successfully!'') w3)"
      by (auto simp: try_body_def Let_def call_def)
    from w' have "trace w' = trace w3 @ success_lines" "fs w' = fs w3"
      by (simp_all add: print_def call_def success_lines_def)
    with \<open>r = None\<close> None k tr rs fin fr fl t2 f2 show ?thesis
      by (intro exI[of _ k] exI[of _ success_lines]) simp
  next
    case (Some e)
    with assms loop have "r = Some e" "w' = w3"
      by (auto simp: try_body_def Let_def call_def)
    with Some k tr rs fin fr fl t2 f2 show ?thesis
      by (intro exI[of _ k] exI[of _ tl]) simp
  qed
qed

lemmas eval_defs = SIZES_def output_path_def str_def str_nat.simps digit_chars_def source_def

lemma output_paths:
  "map output_path SIZES =
     [''icons/icon-72.png'', ''icons/icon-96.png'', ''icons/icon-128.png'',
      ''icons/icon-144.png'', ''icons/icon-152.png'', ''icons/icon-192.png'',
      ''icons/icon-384.png'', ''icons/icon-512.png'']"
  by (simp add: eval_defs)

lemma output_path_other:
  "source \<notin> output_path ` set SIZES" "''icons'' \<notin> output_path ` set SIZES"
  "''manifest.json'' \<notin> output_path ` set SIZES"
  by (simp_all add: eval_defs)

lemma error_reported_last: "error_reported (evs @ [Print (''Error'' @ m)])"
  by (simp add: error_reported_def stdout_append)

lemma saves_icon_events:
  "saves (concat (map (icon_events E img) ss)) = map (\<lambda>s. (output_path s, resized E img s)) ss"
  by (induction ss) (simp_all add: icon_events_def)

lemma stdout_icon_events:
  "stdout (concat (map (icon_events E img) ss)) = map (\<lambda>s. ''Generated: '' @ output_path s) ss"
  by (induction ss) (simp_all add: icon_events_def)

lemma run_decode_fails:
  assumes "fs0 source \<noteq> None" "os_makedirs E ''icons'' True fs0 = Inr fs1"
    and "Image_open E source fs1 = Inl e"
  shows "run E fs0 =
           (Inr PyNone,
            \<lparr>fs = fs1,
             trace = [Exists source, Makedirs ''icons'' True, Open source,
                      Print (''Error generating icons: '' @ message e)]\<rparr>)"
  using assms by (simp add: run_try try_body_decode_fails at_try_def print_def call_def)

lemma run_decoded:
  assumes "fs0 source \<noteq> None" "os_makedirs E ''icons'' True fs0 = Inr fs1"
    and "Image_open E source fs1 = Inr img"
  shows "\<exists>k tl. k \<le> length SIZES \<and> fst (run E fs0) = Inr PyNone \<and>
       trace (snd (run E fs0)) =
         [Exists source, Makedirs ''icons'' True, Open source, Print (source_line img)]
           @ concat (map (icon_events E img) (take k SIZES)) @ tl \<and>
       (\<forall>s\<in>set (take k SIZES). Image_resize E img (s, s) LANCZOS = Inr (resized E img s)) \<and>
       (k = length SIZES \<and> tl = success_lines \<or>
        k < length SIZES \<and>
          (\<exists>e ev. failed_step E img (SIZES ! k) e ev \<and>
                  tl = ev @ [Print (''Error generating icons: '' @ message e)])) \<and>
       (save_frame E \<longrightarrow>
          (\<forall>q. q \<notin> output_path ` set SIZES \<longrightarrow> fs (snd (run E fs0)) q = fs1 q)) \<and>
       (save_frame E \<and> save_contract E \<longrightarrow>
          (\<forall>s\<in>set (take k SIZES).
             fs (snd (run E fs0)) (output_path s) = Some (File (Some (resized E img s)))))"
proof -
  obtain r w2 where tb: "try_body E (at_try fs1) = (r, w2)"
    by (cases "try_body E (at_try fs1)") auto
  have op: "Image_open E source (fs (at_try fs1)) = Inr img"
    using assms(3) by (simp add: at_try_def)
  from try_body_decoded[OF op tb] obtain k tl where k: "k \<le> length SIZES"
    and tr: "trace w2 = trace (at_try fs1) @ [Open source, Print (source_line img)]
                    @ concat (map (icon_events E img) (take k SIZES)) @ tl"
    and rs: "\<forall>s\<in>set (take k SIZES). Image_resize E img (s, s) LANCZOS = Inr (resized E img s)"
    and fin: "case r of None \<Rightarrow> k = length SIZES \<and> tl = success_lines
        | Some e \<Rightarrow> k < length SIZES \<and> failed_step E img (SIZES ! k) e tl"
    and fr: "save_frame E \<longrightarrow> (\<forall>q. q \<notin> output_path ` set SIZES \<longrightarrow> fs w2 q = fs (at_try fs1) q)"
    and fl: "save_frame E \<and> save_contract E \<longrightarrow>
          (\<forall>s\<in>set (take k SIZES). fs w2 (output_path s) = Some (File (Some (resized E img s))))"
    by blast
  show ?thesis
  proof (cases r)
    case None
    with tb assms have "run E fs0 = (Inr PyNone, w2)"
      by (simp add: run_try)
    with None k tr rs fin fr fl show ?thesis
      by (intro exI[of _ k] exI[of _ tl]) (simp add: at_try_def)
  next
    case (Some e)
    with tb assms have "run E fs0 = (Inr PyNone, print (''Error generating icons: '' @ message e) w2)"
      by (simp add: run_try)
    then have "fst (run E fs0) = Inr PyNone" "fs (snd (run E fs0)) = fs w2"
      "trace (snd (run E fs0)) = trace w2 @ [Print (''Error generating icons: '' @ message e)]"
      by (simp_all add: print_def call_def)
    moreover from Some fin have "k < length SIZES" "failed_step E img (SIZES ! k) e tl"
      by simp_all
    ultimately show ?thesis using k tr rs fr fl
      by (intro exI[of _ k] exI[of _ "tl @ [Print (''Error generating icons: '' @ message e)]"])
         (auto simp: at_try_def)
  qed
qed

lemma run_success:
  assumes "fst (run E fs0) = Inr PyNone" and "\<not> error_reported (trace (snd (run E fs0)))"
  shows "\<exists>fs1 img. fs0 source \<noteq> None \<and> os_makedirs E ''icons'' True fs0 = Inr fs1 \<and>
           Image_open E source fs1 = Inr img \<and>
           trace (snd (run E fs0)) =
             [Exists source, Makedirs ''icons'' True, Open source, Print (source_line img)]
               @ concat (map (icon_events E img) SIZES) @ success_lines \<and>
           (\<forall>s\<in>set SIZES. Image_resize E img (s, s) LANCZOS = Inr (resized E img s)) \<and>
           (save_frame E \<longrightarrow>
              (\<forall>q. q \<notin> output_path ` set SIZES \<longrightarrow> fs (snd (run E fs0)) q = fs1 q)) \<and>
           (save_frame E \<and> save_contract E \<longrightarrow>
              (\<forall>s\<in>set SIZES.
                 fs (snd (run E fs0)) (output_path s) = Some (File (Some (resized E img s)))))"
proof -
  have src: "fs0 source \<noteq> None"
  proof
    assume "fs0 source = None"
    then have "trace (snd (run E fs0)) = [Exists source] @ [Print (''Error'' @ '': '' @ source @ '' not found'')]"
      by (simp add: run_def generate_icons_def call_def print_def Let_def)
    with assms(2) error_reported_last show False by metis
  qed
  obtain fs1 where mk: "os_makedirs E ''icons'' True fs0 = Inr fs1"
    using assms(1) src run_makedirs_raises[of fs0 E]
    by (cases "os_makedirs E ''icons'' True fs0") auto
  obtain img where op: "Image_open E source fs1 = Inr img"
  proof (cases "Image_open E source fs1")
    case (Inl e)
    from run_decode_fails[OF src mk Inl]
    have "trace (snd (run E fs0)) = [Exists source, Makedirs ''icons'' True, Open source] @
             [Print (''Error'' @ '' generating icons: '' @ message e)]"
      by simp
    with assms(2) error_reported_last have False by metis
    then show ?thesis ..
  next
    case (Inr img)
    then show ?thesis using that by blast
  qed
  from run_decoded[OF src mk op] obtain k tl where k: "k \<le> length SIZES"
    and tr: "trace (snd (run E fs0)) =
         [Exists source, Makedirs ''icons'' True, Open source, Print (source_line img)]
           @ concat (map (icon_events E img) (take k SIZES)) @ tl"
    and rs: "\<forall>s\<in>set (take k SIZES). Image_resize E img (s, s) LANCZOS = Inr (resized E img s)"
    and fin: "k = length SIZES \<and> tl = success_lines \<or>
        k < length SIZES \<and>
          (\<exists>e ev. failed_step E img (SIZES ! k) e ev \<and>
                  tl = ev @ [Print (''Error generating icons: '' @ message e)])"
    and fr: "save_frame E \<longrightarrow>
          (\<forall>q. q \<notin> output_path ` set SIZES \<longrightarrow> fs (snd (run E fs0)) q = fs1 q)"
    and fl: "save_frame E \<and> save_contract E \<longrightarrow>
          (\<forall>s\<in>set (take k SIZES).
             fs (snd (run E fs0)) (output_path s) = Some (File (Some (resized E img s))))"
    by blast
  have "k = length SIZES \<and> tl = success_lines"
  proof (rule ccontr)
    assume "\<not> ?thesis"
    with fin obtain e ev where "tl = ev @ [Print (''Error generating icons: '' @ message e)]"
      by blast
    with tr have "trace (snd (run E fs0)) =
         ([Exists source, Makedirs ''icons'' True, Open source, Print (source_line img)]
           @ concat (map (icon_events E img) (take k SIZES)) @ ev)
           @ [Print (''Error'' @ '' generating icons: '' @ message e)]"
      by simp
    with assms(2) error_reported_last show False by metis
  qed
  with tr rs fr fl src mk op show ?thesis by auto
qed

subsection \<open>The reference behaviour meets the contracts\<close>

lemmas reference_defs = reference_def posix_makedirs_def pillow_open_def pillow_resize_def
  pillow_save_def

lemmas run_defs = run_def generate_icons_def try_body_def call_def print_def source_line_def
  Let_def at_try_def

lemma reference_resize_contract: "resize_contract reference"
  by (auto simp: resize_contract_def reference_defs split: if_splits)

lemma reference_save_contract: "save_contract reference"
  by (auto simp: save_contract_def reference_defs split: if_splits option.splits node.splits)

lemma reference_save_frame: "save_frame reference"
  by (auto simp: save_frame_def reference_defs split: if_splits option.splits node.splits)


lemma reference_makedirs_contract: "makedirs_contract reference"
  by (auto simp: makedirs_contract_def reference_defs split: if_splits option.splits node.splits)



lemma run_square_ok:
  "fst (run reference fs_square) = Inr PyNone"
  "\<not> error_reported (trace (snd (run reference fs_square)))"
  by (simp_all add: run_defs eval_defs reference_defs fs_square_def bubble_def error_reported_def)

lemma run_blocked:
  "os_makedirs reference ''icons'' True fs_blocked = Inr fs_blocked"
  by (simp add: reference_defs fs_blocked_def)

lemma run_square_decoded:
  "fs_square source \<noteq> None"
  "os_makedirs reference ''icons'' True fs_square = Inr (fs_square(''icons'' \<mapsto> Dir))"
  "Image_open reference source (fs_square(''icons'' \<mapsto> Dir)) = Inr bubble"
  by (simp_all add: reference_defs fs_square_def source_def)

lemma stdout_no_error_success:
  "\<not> error_reported ([Exists source, Makedirs ''icons'' True, Open source, Print (source_line img)]
               @ concat (map (icon_events E img) ss) @ success_lines)"
  by (auto simp: error_reported_def stdout_append stdout_icon_events success_lines_def source_line_def)

lemma run_corrupt:
  "fs_corrupt source \<noteq> None"
  "os_makedirs reference ''icons'' True fs_corrupt = Inr (fs_corrupt(''icons'' \<mapsto> Dir))"
  "Image_open reference source (fs_corrupt(''icons'' \<mapsto> Dir)) =
     Inl (Exception ''cannot identify image file speech-bubble.png'')"
  by (simp_all add: reference_defs fs_corrupt_def source_def)

lemma SIZES_positive: "\<forall>sz\<in>set SIZES. 0 < sz"
  by (simp add: SIZES_def)

lemma run_wide_decoded:
  "fs_wide source \<noteq> None"
  "os_makedirs reference ''icons'' True fs_wide = Inr (fs_wide(''icons'' \<mapsto> Dir))"
  "Image_open reference source (fs_wide(''icons'' \<mapsto> Dir)) = Inr banner"
  "img_size banner = (640, 480)"
  by (simp_all add: reference_defs fs_wide_def source_def banner_def)

lemma writes_icon_events:
  "ev \<in> set (concat (map (icon_events E img) ss)) \<Longrightarrow> writes_to ev = Some p \<Longrightarrow>
     p \<in> output_path ` set ss"
  by (induction ss) (auto simp: icon_events_def)

lemma writes_failed_step:
  "failed_step E img sz e evs \<Longrightarrow> ev \<in> set evs \<Longrightarrow> writes_to ev = Some p \<Longrightarrow>
     p = output_path sz"
  by (auto simp: failed_step_def)


subsection \<open>The first failure of the loop\<close>

lemma for_sizes_app:
  "for_sizes E img (xs @ ys) w =
     (case for_sizes E img xs w of
        (None, w') \<Rightarrow> for_sizes E img ys w'
      | (Some e, w') \<Rightarrow> (Some e, w'))"
  by (induction xs arbitrary: w) (auto simp: Let_def split: sum.splits prod.splits option.splits)

lemma fs_after_snoc:
  "fs_after E img (xs @ [x]) f =
     snd (Image_save E (resized E img x) (output_path x) ''PNG'' (fs_after E img xs f))"
  by (simp add: fs_after_def)

lemma for_sizes_through:
  "(\<forall>j<length xs.
      Image_resize E img (xs ! j, xs ! j) LANCZOS = Inr (resized E img (xs ! j)) \<and>
      fst (Image_save E (resized E img (xs ! j)) (output_path (xs ! j)) ''PNG''
            (fs_after E img (take j xs) (fs w))) = None) \<Longrightarrow>
   for_sizes E img xs w =
     (None, \<lparr>fs = fs_after E img xs (fs w),
             trace = trace w @ concat (map (icon_events E img) xs)\<rparr>)"
proof (induction xs rule: rev_induct)
  case Nil
  show ?case by (simp add: fs_after_def)
next
  case (snoc x xs)
  have pre: "\<forall>j<length xs.
      Image_resize E img (xs ! j, xs ! j) LANCZOS = Inr (resized E img (xs ! j)) \<and>
      fst (Image_save E (resized E img (xs ! j)) (output_path (xs ! j)) ''PNG''
            (fs_after E img (take j xs) (fs w))) = None"
  proof (intro allI impI)
    fix j assume j: "j < length xs"
    then have "j < length (xs @ [x])" by simp
    from snoc.prems[THEN spec, THEN mp, OF this]
    have "Image_resize E img ((xs @ [x]) ! j, (xs @ [x]) ! j) LANCZOS =
        Inr (resized E img ((xs @ [x]) ! j)) \<and>
      fst (Image_save E (resized E img ((xs @ [x]) ! j)) (output_path ((xs @ [x]) ! j)) ''PNG''
            (fs_after E img (take j (xs @ [x])) (fs w))) = None" .
    with j show "Image_resize E img (xs ! j, xs ! j) LANCZOS = Inr (resized E img (xs ! j)) \<and>
      fst (Image_save E (resized E img (xs ! j)) (output_path (xs ! j)) ''PNG''
            (fs_after E img (take j xs) (fs w))) = None"
      by (simp add: nth_append)
  qed
  note ih = snoc.IH[OF pre]
  have "length xs < length (xs @ [x])" by simp
  from snoc.prems[THEN spec, THEN mp, OF this]
  have "Image_resize E img (x, x) LANCZOS = Inr (resized E img x) \<and>
      fst (Image_save E (resized E img x) (output_path x) ''PNG''
            (fs_after E img xs (fs w))) = None"
    by simp
  then have rz: "Image_resize E img (x, x) LANCZOS = Inr (resized E img x)"
    and sv: "fst (Image_save E (resized E img x) (output_path x) ''PNG''
                   (fs_after E img xs (fs w))) = None"
    by simp_all
  obtain f' where sv': "Image_save E (resized E img x) (output_path x) ''PNG''
                   (fs_after E img xs (fs w)) = (None, f')"
    using sv by (cases "Image_save E (resized E img x) (output_path x) ''PNG''
                   (fs_after E img xs (fs w))") auto
  then have f': "fs_after E img (xs @ [x]) (fs w) = f'"
    by (simp add: fs_after_snoc)
  show ?case
    using rz sv' f'
    by (simp add: for_sizes_app ih call_def print_def icon_events_def)
qed

lemma goes_through_take:
  assumes "goes_through E img k fs1" and "k \<le> length SIZES"
  shows "\<forall>j<length (take k SIZES).
      Image_resize E img (take k SIZES ! j, take k SIZES ! j) LANCZOS =
        Inr (resized E img (take k SIZES ! j)) \<and>
      fst (Image_save E (resized E img (take k SIZES ! j)) (output_path (take k SIZES ! j)) ''PNG''
            (fs_after E img (take j (take k SIZES)) fs1)) = None"
proof (intro allI impI)
  fix j assume "j < length (take k SIZES)"
  with assms(2) have j: "j < k" by simp
  then have "min j k = j" by simp
  with j assms(1) show "Image_resize E img (take k SIZES ! j, take k SIZES ! j) LANCZOS =
        Inr (resized E img (take k SIZES ! j)) \<and>
      fst (Image_save E (resized E img (take k SIZES ! j)) (output_path (take k SIZES ! j)) ''PNG''
            (fs_after E img (take j (take k SIZES)) fs1)) = None"
    by (simp add: goes_through_def)
qed

lemma for_sizes_first_failure:
  assumes "k < length SIZES" and "goes_through E img k (fs w)"
  shows "for_sizes E img SIZES w =
     (case for_sizes E img (SIZES ! k # drop (Suc k) SIZES)
             \<lparr>fs = fs_after E img (take k SIZES) (fs w),
              trace = trace w @ concat (map (icon_events E img) (take k SIZES))\<rparr> of
        (None, w') \<Rightarrow> (None, w') | (Some e, w') \<Rightarrow> (Some e, w'))"
proof -
  have split: "SIZES = take k SIZES @ SIZES ! k # drop (Suc k) SIZES"
    using assms(1) by (rule id_take_nth_drop)
  from assms have "for_sizes E img (take k SIZES) w =
     (None, \<lparr>fs = fs_after E img (take k SIZES) (fs w),
             trace = trace w @ concat (map (icon_events E img) (take k SIZES))\<rparr>)"
    by (intro for_sizes_through goes_through_take) simp_all
  then have "for_sizes E img (take k SIZES @ SIZES ! k # drop (Suc k) SIZES) w =
     for_sizes E img (SIZES ! k # drop (Suc k) SIZES)
             \<lparr>fs = fs_after E img (take k SIZES) (fs w),
              trace = trace w @ concat (map (icon_events E img) (take k SIZES))\<rparr>"
    by (simp add: for_sizes_app)
  with split show ?thesis
    by (simp split: prod.splits option.splits)
qed

lemma output_path_nth_neq:
  "j < k \<Longrightarrow> k < length SIZES \<Longrightarrow> output_path (SIZES ! j) \<noteq> output_path (SIZES ! k)"
proof -
  assume a: "j < k" "k < length SIZES"
  have d: "distinct (map output_path SIZES)"
    by (simp add: eval_defs)
  from a have jl: "j < length (map output_path SIZES)" and kl: "k < length (map output_path SIZES)"
    by simp_all
  from nth_eq_iff_index_eq[OF d jl kl] a
  have "map output_path SIZES ! j \<noteq> map output_path SIZES ! k" by simp
  moreover from a have "map output_path SIZES ! j = output_path (SIZES ! j)"
    "map output_path SIZES ! k = output_path (SIZES ! k)" by simp_all
  ultimately show ?thesis by simp
qed

lemma goes_through_less: "goes_through E img (Suc k) fs1 \<Longrightarrow> goes_through E img k fs1"
  by (simp add: goes_through_def)

lemma fs_after_kept:
  assumes "save_contract E" and "save_frame E"
  shows "k \<le> length SIZES \<Longrightarrow> goes_through E img k fs1 \<Longrightarrow>
         \<forall>j<k. fs_after E img (take k SIZES) fs1 (output_path (SIZES ! j)) =
                 Some (File (Some (resized E img (SIZES ! j))))"
proof (induction k)
  case 0
  show ?case by simp
next
  case (Suc k)
  let ?f = "fs_after E img (take k SIZES) fs1"
  let ?r = "resized E img (SIZES ! k)"
  let ?p = "output_path (SIZES ! k)"
  from Suc.prems have k: "k < length SIZES" by simp
  then have tk: "take (Suc k) SIZES = take k SIZES @ [SIZES ! k]"
    by (rule take_Suc_conv_app_nth)
  from Suc.prems(2) have "fst (Image_save E ?r ?p ''PNG'' ?f) = None"
    by (simp add: goes_through_def)
  then obtain f' where sv: "Image_save E ?r ?p ''PNG'' ?f = (None, f')"
    by (cases "Image_save E ?r ?p ''PNG'' ?f") auto
  have after: "fs_after E img (take (Suc k) SIZES) fs1 = f'"
    by (simp add: tk fs_after_snoc sv)
  from assms(1) sv have here: "f' ?p = Some (File (Some ?r))"
    unfolding save_contract_def by blast
  from assms(2) sv have other: "q \<noteq> ?p \<Longrightarrow> f' q = ?f q" for q
    unfolding save_frame_def by blast
  from Suc.IH k goes_through_less[OF Suc.prems(2)]
  have ih: "\<forall>j<k. ?f (output_path (SIZES ! j)) = Some (File (Some (resized E img (SIZES ! j))))"
    by simp
  show ?case
  proof (intro allI impI)
    fix j assume "j < Suc k"
    then have "j = k \<or> j < k" by auto
    then show "fs_after E img (take (Suc k) SIZES) fs1 (output_path (SIZES ! j)) =
                 Some (File (Some (resized E img (SIZES ! j))))"
    proof
      assume "j = k"
      with here after show ?thesis by simp
    next
      assume j: "j < k"
      from output_path_nth_neq[OF j k] other
      have "f' (output_path (SIZES ! j)) = ?f (output_path (SIZES ! j))" by simp
      with ih j after show ?thesis by simp
    qed
  qed
qed

lemma run_truncated:
  "os_makedirs truncated ''icons'' True fs_square = Inr (fs_square(''icons'' \<mapsto> Dir))"
  "Image_open truncated source (fs_square(''icons'' \<mapsto> Dir)) = Inr bubble"
  "goes_through truncated bubble 0 (fs_square(''icons'' \<mapsto> Dir))"
  "Image_resize truncated bubble (SIZES ! 0, SIZES ! 0) LANCZOS =
     Inl (Exception ''image file is truncated'')"
  by (simp_all add: truncated_def reference_defs fs_square_def source_def goes_through_def)

lemma SIZES_length: "0 < length SIZES" "2 < length SIZES"
  by (simp_all add: SIZES_def)

lemma run_blocked_steps:
  "Image_open reference source fs_blocked = Inr bubble"
  "goes_through reference bubble 2 fs_blocked"
  "Image_resize reference bubble (SIZES ! 2, SIZES ! 2) LANCZOS =
     Inr (resized reference bubble (SIZES ! 2))"
  "Image_save reference (resized reference bubble (SIZES ! 2)) (output_path (SIZES ! 2)) ''PNG''
     (fs_after reference bubble (take 2 SIZES) fs_blocked) =
     (Some (Exception ''[Errno 21] Is a directory: icons/icon-128.png''),
      fs_after reference bubble (take 2 SIZES) fs_blocked)"
  by (simp_all add: reference_defs eval_defs fs_blocked_def goes_through_def resized_def
        fs_after_def numeral_2_eq_2 All_less_Suc)

lemma run_all_through:
  assumes "fs0 source \<noteq> None" and "os_makedirs E ''icons'' True fs0 = Inr fs1"
    and "Image_open E source fs1 = Inr img" and "goes_through E img (length SIZES) fs1"
  shows "run E fs0 =
           (Inr PyNone,
            \<lparr>fs = fs_after E img SIZES fs1,
             trace = [Exists source, Makedirs ''icons'' True, Open source, Print (source_line img)]
                       @ concat (map (icon_events E img) SIZES) @ success_lines\<rparr>)"
proof -
  let ?w2 = "print (source_line img) (call (Open source) (at_try fs1))"
  have w2: "fs ?w2 = fs1"
    "trace ?w2 = [Exists source, Makedirs ''icons'' True, Open source, Print (source_line img)]"
    by (simp_all add: print_def call_def at_try_def)
  from goes_through_take[OF assms(4)] w2(1)
  have "\<forall>j<length SIZES.
      Image_resize E img (SIZES ! j, SIZES ! j) LANCZOS = Inr (resized E img (SIZES ! j)) \<and>
      fst (Image_save E (resized E img (SIZES ! j)) (output_path (SIZES ! j)) ''PNG''
            (fs_after E img (take j SIZES) (fs ?w2))) = None"
    by simp
  from for_sizes_through[OF this]
  have "for_sizes E img SIZES ?w2 =
     (None, \<lparr>fs = fs_after E img SIZES fs1,
             trace = [Exists source, Makedirs ''icons'' True, Open source, Print (source_line img)]
                       @ concat (map (icon_events E img) SIZES)\<rparr>)"
    by (simp only: w2 append_assoc)
  with assms(3) have "try_body E (at_try fs1) =
     (None, \<lparr>fs = fs_after E img SIZES fs1,
             trace = [Exists source, Makedirs ''icons'' True, Open source, Print (source_line img)]
                       @ concat (map (icon_events E img) SIZES) @ success_lines\<rparr>)"
    by (simp add: try_body_def Let_def at_try_def call_def print_def success_lines_def)
  with run_try[OF assms(1,2)] show ?thesis by simp
qed

lemma pillow_save_no_new_dir:
  "snd (pillow_save icon p fmt f) q = Some Dir \<Longrightarrow> f q = Some Dir"
  by (auto simp: pillow_save_def split: if_splits option.splits node.splits)

lemma fs_after_no_new_dir:
  "fs_after reference img ss f q = Some Dir \<Longrightarrow> f q = Some Dir"
proof (induction ss arbitrary: f)
  case Nil
  then show ?case by (simp add: fs_after_def)
next
  case (Cons s ss)
  from Cons.prems have "fs_after reference img ss
      (snd (Image_save reference (resized reference img s) (output_path s) ''PNG'' f)) q = Some Dir"
    by (simp add: fs_after_def)
  from Cons.IH[OF this] show ?case
    using pillow_save_no_new_dir by (simp add: reference_def)
qed

lemma reference_goes_through:
  assumes "outputs_free fs1" and "k \<le> length SIZES"
  shows "goes_through reference img k fs1"
  unfolding goes_through_def
proof (intro allI impI conjI)
  fix j assume "j < k"
  with assms(2) have m: "SIZES ! j \<in> set SIZES" by simp
  with SIZES_positive have "0 < SIZES ! j" by blast
  then show "Image_resize reference img (SIZES ! j, SIZES ! j) LANCZOS =
               Inr (resized reference img (SIZES ! j))"
    by (simp add: resized_def reference_def pillow_resize_def)
  from m assms(1) have "fs1 (output_path (SIZES ! j)) \<noteq> Some Dir"
    by (simp add: outputs_free_def)
  with fs_after_no_new_dir
  have "fs_after reference img (take j SIZES) fs1 (output_path (SIZES ! j)) \<noteq> Some Dir"
    by blast
  then show "fst (Image_save reference (resized reference img (SIZES ! j))
                    (output_path (SIZES ! j)) ''PNG''
                    (fs_after reference img (take j SIZES) fs1)) = None"
    by (simp add: reference_def pillow_save_def split: option.splits node.splits)
qed

lemma fs_wide_free: "outputs_free fs_wide"
  by (simp add: outputs_free_def fs_wide_def eval_defs)

section \<open>The claims\<close>

text \<open>
  C1. After a run of generate_icons() that returns and reports no error, exactly one
  icon has been saved for every size of the list [72, 96, 128, 144, 152, 192, 384, 512],
  under the name icons/icon-<size>.png and in list order, and each saved icon is a square
  raster of that size: the saved images have \<^verbatim>\<open>size\<close> (size, size) and, when the run
  ends, the file at each of the eight paths holds that image. Pillow's contracts are
  hypotheses: \<^verbatim>\<open>resize\<close> returns an image of the requested size, and \<^verbatim>\<open>save\<close> stores
  the image at its target and touches no other path.
\<close>

theorem C1_one_square_icon_per_size:
  assumes "resize_contract E" and "save_contract E" and "save_frame E"
    and "fst (run E fs0) = Inr PyNone"
    and "\<not> error_reported (trace (snd (run E fs0)))"
  shows "map (\<lambda>(p, icon). (p, img_size icon)) (saves (trace (snd (run E fs0)))) =
           [(''icons/icon-72.png'', (72, 72)), (''icons/icon-96.png'', (96, 96)),
            (''icons/icon-128.png'', (128, 128)), (''icons/icon-144.png'', (144, 144)),
            (''icons/icon-152.png'', (152, 152)), (''icons/icon-192.png'', (192, 192)),
            (''icons/icon-384.png'', (384, 384)), (''icons/icon-512.png'', (512, 512))] \<and>
         (\<forall>sz\<in>set SIZES. \<exists>icon.
            (output_path sz, icon) \<in> set (saves (trace (snd (run E fs0)))) \<and>
            fs (snd (run E fs0)) (output_path sz) = Some (File (Some icon)) \<and>
            img_size icon = (sz, sz))"
proof -
  from run_success[OF assms(4,5)] assms(2,3) obtain fs1 img where
    tr: "trace (snd (run E fs0)) =
             [Exists source, Makedirs ''icons'' True, Open source, Print (source_line img)]
               @ concat (map (icon_events E img) SIZES) @ success_lines"
    and rs: "\<forall>s\<in>set SIZES. Image_resize E img (s, s) LANCZOS = Inr (resized E img s)"
    and fl: "\<forall>s\<in>set SIZES.
                 fs (snd (run E fs0)) (output_path s) = Some (File (Some (resized E img s)))"
    by blast
  from tr have sv: "saves (trace (snd (run E fs0))) = map (\<lambda>s. (output_path s, resized E img s)) SIZES"
    by (simp add: saves_append saves_icon_events success_lines_def)
  have sq: "img_size (resized E img s) = (s, s)" if "s \<in> set SIZES" for s
    using rs that assms(1) by (auto simp: resize_contract_def)
  have "map (\<lambda>(p, icon). (p, img_size icon)) (saves (trace (snd (run E fs0)))) =
          map (\<lambda>s. (output_path s, (s, s))) SIZES"
    using sq by (simp add: sv)
  also have "\<dots> = [(''icons/icon-72.png'', (72, 72)), (''icons/icon-96.png'', (96, 96)),
            (''icons/icon-128.png'', (128, 128)), (''icons/icon-144.png'', (144, 144)),
            (''icons/icon-152.png'', (152, 152)), (''icons/icon-192.png'', (192, 192)),
            (''icons/icon-384.png'', (384, 384)), (''icons/icon-512.png'', (512, 512))]"
    by (simp add: eval_defs)
  finally have one: "map (\<lambda>(p, icon). (p, img_size icon)) (saves (trace (snd (run E fs0)))) =
           [(''icons/icon-72.png'', (72, 72)), (''icons/icon-96.png'', (96, 96)),
            (''icons/icon-128.png'', (128, 128)), (''icons/icon-144.png'', (144, 144)),
            (''icons/icon-152.png'', (152, 152)), (''icons/icon-192.png'', (192, 192)),
            (''icons/icon-384.png'', (384, 384)), (''icons/icon-512.png'', (512, 512))]" .
  have two: "\<forall>sz\<in>set SIZES. \<exists>icon.
            (output_path sz, icon) \<in> set (saves (trace (snd (run E fs0)))) \<and>
            fs (snd (run E fs0)) (output_path sz) = Some (File (Some icon)) \<and>
            img_size icon = (sz, sz)"
  proof
    fix sz assume m: "sz \<in> set SIZES"
    then have "(output_path sz, resized E img sz) \<in> set (saves (trace (snd (run E fs0))))"
      by (auto simp: sv)
    with m fl sq show "\<exists>icon.
            (output_path sz, icon) \<in> set (saves (trace (snd (run E fs0)))) \<and>
            fs (snd (run E fs0)) (output_path sz) = Some (File (Some icon)) \<and>
            img_size icon = (sz, sz)"
      by blast
  qed
  from one two show ?thesis by blast
qed

theorem C1_one_square_icon_per_size_witness:
  "resize_contract reference \<and> save_contract reference \<and> save_frame reference \<and>
   fst (run reference fs_square) = Inr PyNone \<and>
   \<not> error_reported (trace (snd (run reference fs_square))) \<and>
   map (\<lambda>(p, icon). (p, img_size icon)) (saves (trace (snd (run reference fs_square)))) =
           [(''icons/icon-72.png'', (72, 72)), (''icons/icon-96.png'', (96, 96)),
            (''icons/icon-128.png'', (128, 128)), (''icons/icon-144.png'', (144, 144)),
            (''icons/icon-152.png'', (152, 152)), (''icons/icon-192.png'', (192, 192)),
            (''icons/icon-384.png'', (384, 384)), (''icons/icon-512.png'', (512, 512))] \<and>
   (\<exists>icon. (''icons/icon-72.png'', icon) \<in> set (saves (trace (snd (run reference fs_square)))) \<and>
      fs (snd (run reference fs_square)) ''icons/icon-72.png'' = Some (File (Some icon)) \<and>
      img_size icon = (72, 72)) \<and>
   (\<exists>icon. (''icons/icon-512.png'', icon) \<in> set (saves (trace (snd (run reference fs_square)))) \<and>
      fs (snd (run reference fs_square)) ''icons/icon-512.png'' = Some (File (Some icon)) \<and>
      img_size icon = (512, 512))"
proof -
  note t = C1_one_square_icon_per_size [OF reference_resize_contract reference_save_contract
      reference_save_frame run_square_ok]
  have m: "(72::int) \<in> set SIZES" "(512::int) \<in> set SIZES"
    by (simp_all add: SIZES_def)
  have p: "output_path 72 = ''icons/icon-72.png''" "output_path 512 = ''icons/icon-512.png''"
    by (simp_all add: eval_defs)
  note small = t [THEN conjunct2, THEN bspec, OF m(1), unfolded p]
  note large = t [THEN conjunct2, THEN bspec, OF m(2), unfolded p]
  from t [THEN conjunct1] small large
    reference_resize_contract reference_save_contract reference_save_frame run_square_ok
  show ?thesis by blast
qed

text \<open>
  C2. Every exception that a collaborator raises during decode, resample or save is
  caught, and generate_icons() returns None. Three cases, each with the whole run:
  \<^verbatim>\<open>Image.open\<close> raises \<open>e\<close>; or the collaborators let the first \<open>k\<close> sizes through and
  \<^verbatim>\<open>resize\<close> raises \<open>e\<close> at the next size; or \<^verbatim>\<open>resize\<close> returns there and \<^verbatim>\<open>save\<close>
  raises \<open>e\<close>. In each case the call that raised is the last call on a collaborator
  before the one print of "Error generating icons: " followed by the text of \<open>e\<close>, so
  no later size is processed, and the file system at the end is the one the raising call
  left: the handler removes nothing. With the contracts of \<^verbatim>\<open>save\<close>, the icons of the
  \<open>k\<close> sizes before the failure are still in place at the end.
\<close>

theorem C2_exception_caught_and_reported:
  assumes "fs0 source \<noteq> None" and "os_makedirs E ''icons'' True fs0 = Inr fs1"
  shows
   "(Image_open E source fs1 = Inl e \<longrightarrow>
       run E fs0 =
         (Inr PyNone,
          \<lparr>fs = fs1,
           trace = [Exists source, Makedirs ''icons'' True, Open source,
                    Print (''Error generating icons: '' @ message e)]\<rparr>)) \<and>
    (Image_open E source fs1 = Inr img \<and> k < length SIZES \<and> goes_through E img k fs1 \<and>
     Image_resize E img (SIZES ! k, SIZES ! k) LANCZOS = Inl e \<longrightarrow>
       run E fs0 =
         (Inr PyNone,
          \<lparr>fs = fs_after E img (take k SIZES) fs1,
           trace = [Exists source, Makedirs ''icons'' True, Open source, Print (source_line img)]
                     @ concat (map (icon_events E img) (take k SIZES))
                     @ [Resize img (SIZES ! k, SIZES ! k) LANCZOS,
                        Print (''Error generating icons: '' @ message e)]\<rparr>)) \<and>
    (Image_open E source fs1 = Inr img \<and> k < length SIZES \<and> goes_through E img k fs1 \<and>
     Image_resize E img (SIZES ! k, SIZES ! k) LANCZOS = Inr r \<and>
     Image_save E r (output_path (SIZES ! k)) ''PNG'' (fs_after E img (take k SIZES) fs1) =
       (Some e, fsk) \<longrightarrow>
       run E fs0 =
         (Inr PyNone,
          \<lparr>fs = fsk,
           trace = [Exists source, Makedirs ''icons'' True, Open source, Print (source_line img)]
                     @ concat (map (icon_events E img) (take k SIZES))
                     @ [Resize img (SIZES ! k, SIZES ! k) LANCZOS,
                        Save r (output_path (SIZES ! k)) ''PNG'',
                        Print (''Error generating icons: '' @ message e)]\<rparr>) \<and>
       (save_frame E \<and> save_contract E \<longrightarrow>
          (\<forall>j<k. fsk (output_path (SIZES ! j)) =
                   Some (File (Some (resized E img (SIZES ! j))))))) \<and>
    (k < length SIZES \<and> goes_through E img k fs1 \<and> save_frame E \<and> save_contract E \<longrightarrow>
       (\<forall>j<k. fs_after E img (take k SIZES) fs1 (output_path (SIZES ! j)) =
                Some (File (Some (resized E img (SIZES ! j))))))"
proof -
  note rt = run_try[OF assms]
  let ?head = "[Exists source, Makedirs ''icons'' True, Open source, Print (source_line img)]"
  let ?w2 = "print (source_line img) (call (Open source) (at_try fs1))"
  let ?W = "\<lparr>fs = fs_after E img (take k SIZES) fs1,
             trace = ?head @ concat (map (icon_events E img) (take k SIZES))\<rparr>"
  have w2: "fs ?w2 = fs1" "trace ?w2 = ?head"
    by (simp_all add: print_def call_def at_try_def)
  have loop: "for_sizes E img SIZES ?w2 =
     (case for_sizes E img (SIZES ! k # drop (Suc k) SIZES) ?W of
        (None, w') \<Rightarrow> (None, w') | (Some e, w') \<Rightarrow> (Some e, w'))"
    if "k < length SIZES" "goes_through E img k fs1"
    using for_sizes_first_failure[of k E img ?w2] that by (simp only: w2)
  have A: "Image_open E source fs1 = Inl e \<longrightarrow>
       run E fs0 =
         (Inr PyNone,
          \<lparr>fs = fs1,
           trace = [Exists source, Makedirs ''icons'' True, Open source,
                    Print (''Error generating icons: '' @ message e)]\<rparr>)"
    using run_decode_fails[OF assms] by blast
  have B: "Image_open E source fs1 = Inr img \<and> k < length SIZES \<and> goes_through E img k fs1 \<and>
     Image_resize E img (SIZES ! k, SIZES ! k) LANCZOS = Inl e \<longrightarrow>
       run E fs0 =
         (Inr PyNone,
          \<lparr>fs = fs_after E img (take k SIZES) fs1,
           trace = ?head @ concat (map (icon_events E img) (take k SIZES))
                     @ [Resize img (SIZES ! k, SIZES ! k) LANCZOS,
                        Print (''Error generating icons: '' @ message e)]\<rparr>)"
  proof
    assume h: "Image_open E source fs1 = Inr img \<and> k < length SIZES \<and>
      goes_through E img k fs1 \<and> Image_resize E img (SIZES ! k, SIZES ! k) LANCZOS = Inl e"
    then have "for_sizes E img (SIZES ! k # drop (Suc k) SIZES) ?W =
                 (Some e, call (Resize img (SIZES ! k, SIZES ! k) LANCZOS) ?W)"
      by simp
    with loop h have "for_sizes E img SIZES ?w2 =
                 (Some e, call (Resize img (SIZES ! k, SIZES ! k) LANCZOS) ?W)"
      by simp
    with h have "try_body E (at_try fs1) =
                 (Some e, call (Resize img (SIZES ! k, SIZES ! k) LANCZOS) ?W)"
      by (simp add: try_body_def Let_def at_try_def call_def print_def)
    with rt show "run E fs0 =
         (Inr PyNone,
          \<lparr>fs = fs_after E img (take k SIZES) fs1,
           trace = ?head @ concat (map (icon_events E img) (take k SIZES))
                     @ [Resize img (SIZES ! k, SIZES ! k) LANCZOS,
                        Print (''Error generating icons: '' @ message e)]\<rparr>)"
      by (simp add: call_def print_def)
  qed
  have D: "k < length SIZES \<and> goes_through E img k fs1 \<and> save_frame E \<and> save_contract E \<longrightarrow>
       (\<forall>j<k. fs_after E img (take k SIZES) fs1 (output_path (SIZES ! j)) =
                Some (File (Some (resized E img (SIZES ! j)))))"
    using fs_after_kept[of E k img fs1] by simp
  have C: "Image_open E source fs1 = Inr img \<and> k < length SIZES \<and> goes_through E img k fs1 \<and>
     Image_resize E img (SIZES ! k, SIZES ! k) LANCZOS = Inr r \<and>
     Image_save E r (output_path (SIZES ! k)) ''PNG'' (fs_after E img (take k SIZES) fs1) =
       (Some e, fsk) \<longrightarrow>
       run E fs0 =
         (Inr PyNone,
          \<lparr>fs = fsk,
           trace = ?head @ concat (map (icon_events E img) (take k SIZES))
                     @ [Resize img (SIZES ! k, SIZES ! k) LANCZOS,
                        Save r (output_path (SIZES ! k)) ''PNG'',
                        Print (''Error generating icons: '' @ message e)]\<rparr>) \<and>
       (save_frame E \<and> save_contract E \<longrightarrow>
          (\<forall>j<k. fsk (output_path (SIZES ! j)) =
                   Some (File (Some (resized E img (SIZES ! j))))))"
  proof
    assume h: "Image_open E source fs1 = Inr img \<and> k < length SIZES \<and>
      goes_through E img k fs1 \<and> Image_resize E img (SIZES ! k, SIZES ! k) LANCZOS = Inr r \<and>
      Image_save E r (output_path (SIZES ! k)) ''PNG'' (fs_after E img (take k SIZES) fs1) =
        (Some e, fsk)"
    let ?W' = "\<lparr>fs = fsk,
                trace = ?head @ concat (map (icon_events E img) (take k SIZES))
                     @ [Resize img (SIZES ! k, SIZES ! k) LANCZOS,
                        Save r (output_path (SIZES ! k)) ''PNG'']\<rparr>"
    from h have "for_sizes E img (SIZES ! k # drop (Suc k) SIZES) ?W = (Some e, ?W')"
      by (simp add: call_def)
    with loop h have "for_sizes E img SIZES ?w2 = (Some e, ?W')"
      by simp
    with h have "try_body E (at_try fs1) = (Some e, ?W')"
      by (simp add: try_body_def Let_def at_try_def call_def print_def)
    with rt have one: "run E fs0 =
         (Inr PyNone,
          \<lparr>fs = fsk,
           trace = ?head @ concat (map (icon_events E img) (take k SIZES))
                     @ [Resize img (SIZES ! k, SIZES ! k) LANCZOS,
                        Save r (output_path (SIZES ! k)) ''PNG'',
                        Print (''Error generating icons: '' @ message e)]\<rparr>)"
      by (simp add: call_def print_def)
    have two: "save_frame E \<and> save_contract E \<longrightarrow>
          (\<forall>j<k. fsk (output_path (SIZES ! j)) =
                   Some (File (Some (resized E img (SIZES ! j)))))"
    proof (intro impI allI)
      fix j assume c: "save_frame E \<and> save_contract E" and j: "j < k"
      from h have k: "k < length SIZES" by simp
      from c h output_path_nth_neq[OF j k]
      have "fsk (output_path (SIZES ! j)) =
              fs_after E img (take k SIZES) fs1 (output_path (SIZES ! j))"
        unfolding save_frame_def by blast
      with D c h j show "fsk (output_path (SIZES ! j)) =
                   Some (File (Some (resized E img (SIZES ! j))))"
        by simp
    qed
    from one two show "run E fs0 =
         (Inr PyNone,
          \<lparr>fs = fsk,
           trace = ?head @ concat (map (icon_events E img) (take k SIZES))
                     @ [Resize img (SIZES ! k, SIZES ! k) LANCZOS,
                        Save r (output_path (SIZES ! k)) ''PNG'',
                        Print (''Error generating icons: '' @ message e)]\<rparr>) \<and>
       (save_frame E \<and> save_contract E \<longrightarrow>
          (\<forall>j<k. fsk (output_path (SIZES ! j)) =
                   Some (File (Some (resized E img (SIZES ! j))))))"
      by (rule conjI)
  qed
  from A B C D show ?thesis by (intro conjI)
qed

theorem C2_exception_caught_and_reported_witness:
  "fs_corrupt source \<noteq> None \<and>
   os_makedirs reference ''icons'' True fs_corrupt = Inr (fs_corrupt(''icons'' \<mapsto> Dir)) \<and>
   Image_open reference source (fs_corrupt(''icons'' \<mapsto> Dir)) =
     Inl (Exception ''cannot identify image file speech-bubble.png'') \<and>
   run reference fs_corrupt =
     (Inr PyNone,
      \<lparr>fs = fs_corrupt(''icons'' \<mapsto> Dir),
       trace = [Exists source, Makedirs ''icons'' True, Open source,
                Print (''Error generating icons: '' @
                       message (Exception ''cannot identify image file speech-bubble.png''))]\<rparr>) \<and>
   fs_square source \<noteq> None \<and>
   os_makedirs truncated ''icons'' True fs_square = Inr (fs_square(''icons'' \<mapsto> Dir)) \<and>
   Image_open truncated source (fs_square(''icons'' \<mapsto> Dir)) = Inr bubble \<and>
   0 < length SIZES \<and> goes_through truncated bubble 0 (fs_square(''icons'' \<mapsto> Dir)) \<and>
   Image_resize truncated bubble (SIZES ! 0, SIZES ! 0) LANCZOS =
     Inl (Exception ''image file is truncated'') \<and>
   run truncated fs_square =
     (Inr PyNone,
      \<lparr>fs = fs_after truncated bubble (take 0 SIZES) (fs_square(''icons'' \<mapsto> Dir)),
       trace = [Exists source, Makedirs ''icons'' True, Open source, Print (source_line bubble)]
                 @ concat (map (icon_events truncated bubble) (take 0 SIZES))
                 @ [Resize bubble (SIZES ! 0, SIZES ! 0) LANCZOS,
                    Print (''Error generating icons: '' @
                           message (Exception ''image file is truncated''))]\<rparr>) \<and>
   fs_blocked source \<noteq> None \<and>
   os_makedirs reference ''icons'' True fs_blocked = Inr fs_blocked \<and>
   Image_open reference source fs_blocked = Inr bubble \<and>
   2 < length SIZES \<and> goes_through reference bubble 2 fs_blocked \<and>
   Image_resize reference bubble (SIZES ! 2, SIZES ! 2) LANCZOS =
     Inr (resized reference bubble (SIZES ! 2)) \<and>
   Image_save reference (resized reference bubble (SIZES ! 2)) (output_path (SIZES ! 2)) ''PNG''
     (fs_after reference bubble (take 2 SIZES) fs_blocked) =
     (Some (Exception ''[Errno 21] Is a directory: icons/icon-128.png''),
      fs_after reference bubble (take 2 SIZES) fs_blocked) \<and>
   run reference fs_blocked =
     (Inr PyNone,
      \<lparr>fs = fs_after reference bubble (take 2 SIZES) fs_blocked,
       trace = [Exists source, Makedirs ''icons'' True, Open source, Print (source_line bubble)]
                 @ concat (map (icon_events reference bubble) (take 2 SIZES))
                 @ [Resize bubble (SIZES ! 2, SIZES ! 2) LANCZOS,
                    Save (resized reference bubble (SIZES ! 2)) (output_path (SIZES ! 2)) ''PNG'',
                    Print (''Error generating icons: '' @
                           message (Exception ''[Errno 21] Is a directory: icons/icon-128.png''))]\<rparr>) \<and>
   stdout (trace (snd (run reference fs_blocked))) =
     [''Source image: 1024x1024'', ''Generated: icons/icon-72.png'',
      ''Generated: icons/icon-96.png'',
      ''Error generating icons: [Errno 21] Is a directory: icons/icon-128.png''] \<and>
   fs (snd (run reference fs_blocked)) ''icons/icon-72.png'' =
     Some (File (Some (resized reference bubble 72))) \<and>
   fs (snd (run reference fs_blocked)) ''icons/icon-96.png'' =
     Some (File (Some (resized reference bubble 96)))"
proof -
  note c1 = run_corrupt(1) and c2 = run_corrupt(2) and c3 = run_corrupt(3)
  note decode = C2_exception_caught_and_reported [OF c1 c2, THEN conjunct1, THEN mp, OF c3]
  note t1 = run_square_decoded(1) and t2 = run_truncated(1) and t3 = run_truncated(2)
    and t4 = SIZES_length(1) and t5 = run_truncated(3) and t6 = run_truncated(4)
  note resample = C2_exception_caught_and_reported [OF t1 t2, THEN conjunct2, THEN conjunct1,
      THEN mp, OF conjI, OF t3 conjI, OF t4 conjI, OF t5 t6]
  have b1: "fs_blocked source \<noteq> None" by (simp add: fs_blocked_def source_def)
  note b2 = run_blocked(1) and b3 = run_blocked_steps(1) and b4 = SIZES_length(2)
    and b5 = run_blocked_steps(2) and b6 = run_blocked_steps(3) and b7 = run_blocked_steps(4)
  note save = C2_exception_caught_and_reported [OF b1 b2, THEN conjunct2, THEN conjunct2,
      THEN conjunct1, THEN mp, OF conjI, OF b3 conjI, OF b4 conjI, OF b5 conjI, OF b6 b7]
  note saved = save [THEN conjunct1]
  note kept = save [THEN conjunct2, THEN mp, OF conjI, OF reference_save_frame
      reference_save_contract]
  have lines: "stdout (trace (snd (run reference fs_blocked))) =
     [''Source image: 1024x1024'', ''Generated: icons/icon-72.png'',
      ''Generated: icons/icon-96.png'',
      ''Error generating icons: [Errno 21] Is a directory: icons/icon-128.png'']"
    unfolding saved
    by (simp add: stdout_append icon_events_def source_line_def bubble_def eval_defs)
  have "(0::nat) < 2" "(1::nat) < 2" by simp_all
  note k0 = kept [THEN spec, THEN mp, OF \<open>(0::nat) < 2\<close>]
    and k1 = kept [THEN spec, THEN mp, OF \<open>(1::nat) < 2\<close>]
  have first: "fs (snd (run reference fs_blocked)) ''icons/icon-72.png'' =
     Some (File (Some (resized reference bubble 72)))"
    using k0 unfolding saved by (simp add: eval_defs)
  have second: "fs (snd (run reference fs_blocked)) ''icons/icon-96.png'' =
     Some (File (Some (resized reference bubble 96)))"
    using k1 unfolding saved by (simp add: eval_defs)
  show ?thesis
    by (intro conjI)
       (fact c1 c2 c3 decode t1 t2 t3 t4 t5 t6 resample b1 b2 b3 b4 b5 b6 b7 saved lines
          first second)+
qed

text \<open>
  C3. If speech-bubble.png does not exist, generate_icons() prints an error message that
  names the missing file, returns normally (it returns None, nothing is raised) and halts
  before producing any output: the only collaborator calls are the existence test and the
  print, and the file system is left as it was, so no icon file is written.
\<close>

theorem C3_missing_source:
  "fs0 source = None \<Longrightarrow>
     run E fs0 =
       (Inr PyNone,
        \<lparr>fs = fs0,
         trace = [Exists ''speech-bubble.png'', Print ''Error: speech-bubble.png not found'']\<rparr>)"
  by (simp add: run_def generate_icons_def call_def print_def source_def)

theorem C3_missing_source_witness:
  "fs_empty source = None \<and>
   run reference fs_empty =
     (Inr PyNone,
      \<lparr>fs = fs_empty,
       trace = [Exists ''speech-bubble.png'', Print ''Error: speech-bubble.png not found'']\<rparr>)"
  using C3_missing_source [of fs_empty reference] by (simp add: fs_empty_def)

text \<open>
  C4. The claim is that generate_icons() never lets an exception reach its caller. The
  call of \<^verbatim>\<open>os.makedirs("icons", exist_ok=True)\<close> stands before the \<^verbatim>\<open>try\<close> statement, so
  an exception that it raises is not handled. In a working directory that holds the source
  image and a regular file named icons, \<^verbatim>\<open>os.makedirs\<close> raises \<^verbatim>\<open>FileExistsError\<close>
  (\<^verbatim>\<open>exist_ok\<close> only excuses an existing directory) and the run ends with that exception
  at the caller, after two collaborator calls and without any printed line.
\<close>

theorem C4_makedirs_exception_propagates:
  "run reference fs_icons_is_file =
     (Inl (Exception ''[Errno 17] File exists: icons''),
      \<lparr>fs = fs_icons_is_file,
       trace = [Exists ''speech-bubble.png'', Makedirs ''icons'' True]\<rparr>)"
  by (simp add: run_defs reference_defs fs_icons_is_file_def source_def)






text \<open>
  C7. With Pillow behaving as documented (the reference collaborators, whose
  \<^verbatim>\<open>resize\<close> takes the requested size and does not look at the proportions of the
  source), for every source image, of any width \<open>w\<close> and height \<open>h\<close>, equal or not, in a
  working directory where icons is absent or a directory and no directory stands in the
  place of an icon: the run returns None, it prints the source line with \<open>w\<close> and \<open>h\<close>,
  the eight progress lines and the two closing lines and no error, the eight saved images
  have the sizes (size, size) of their file names, and those images are in the files at
  the end. For collaborators in general the script itself adds no failure to the resize
  step: by C6 an iteration stops only when \<^verbatim>\<open>resize\<close> or \<^verbatim>\<open>save\<close> raises.
\<close>

theorem C7_any_aspect_ratio:
  assumes "fs0 source = Some (File (Some img))" and "img_size img = (w, h)"
    and "fs0 ''icons'' = None \<or> fs0 ''icons'' = Some Dir"
    and "outputs_free fs0"
  shows "fst (run reference fs0) = Inr PyNone \<and>
         stdout (trace (snd (run reference fs0))) =
           [''Source image: '' @ str w @ ''x'' @ str h,
            ''Generated: icons/icon-72.png'', ''Generated: icons/icon-96.png'',
            ''Generated: icons/icon-128.png'', ''Generated: icons/icon-144.png'',
            ''Generated: icons/icon-152.png'', ''Generated: icons/icon-192.png'',
            ''Generated: icons/icon-384.png'', ''Generated: icons/icon-512.png'',
            CHR 0x0A # ''All icons generated successfully!'',
            ''Update manifest.json to reference these icons.''] \<and>
         map (\<lambda>(p, icon). (p, img_size icon)) (saves (trace (snd (run reference fs0)))) =
           [(''icons/icon-72.png'', (72, 72)), (''icons/icon-96.png'', (96, 96)),
            (''icons/icon-128.png'', (128, 128)), (''icons/icon-144.png'', (144, 144)),
            (''icons/icon-152.png'', (152, 152)), (''icons/icon-192.png'', (192, 192)),
            (''icons/icon-384.png'', (384, 384)), (''icons/icon-512.png'', (512, 512))] \<and>
         (\<forall>sz\<in>set SIZES. \<exists>icon.
            fs (snd (run reference fs0)) (output_path sz) = Some (File (Some icon)) \<and>
            img_size icon = (sz, sz))"
proof -
  let ?fs1 = "fs0(''icons'' \<mapsto> Dir)"
  have src: "fs0 source \<noteq> None" using assms(1) by simp
  from assms(3) have mk: "os_makedirs reference ''icons'' True fs0 = Inr ?fs1"
    by (auto simp: reference_def posix_makedirs_def fun_upd_idem)
  have op: "Image_open reference source ?fs1 = Inr img"
    using assms(1) by (simp add: reference_def pillow_open_def source_def)
  have free: "outputs_free ?fs1"
    unfolding outputs_free_def
  proof
    fix sz assume m: "sz \<in> set SIZES"
    with output_path_other(2) have "output_path sz \<noteq> ''icons''" by force
    with assms(4) m show "?fs1 (output_path sz) \<noteq> Some Dir"
      by (simp add: outputs_free_def)
  qed
  have gt: "goes_through reference img (length SIZES) ?fs1"
    using free by (rule reference_goes_through) simp
  note r = run_all_through[OF src mk op gt]
  have sq: "img_size (resized reference img sz) = (sz, sz)" if "sz \<in> set SIZES" for sz
  proof -
    from that SIZES_positive have "0 < sz" by blast
    then show ?thesis by (simp add: resized_def reference_def pillow_resize_def)
  qed
  have one: "fst (run reference fs0) = Inr PyNone" by (simp add: r)
  have "stdout (trace (snd (run reference fs0))) =
          source_line img # map (\<lambda>s. ''Generated: '' @ output_path s) SIZES @
            [CHR 0x0A # ''All icons generated successfully!'',
             ''Update manifest.json to reference these icons.'']"
    by (simp add: r stdout_append stdout_icon_events success_lines_def)
  also have "source_line img = ''Source image: '' @ str w @ ''x'' @ str h"
    by (simp add: source_line_def assms(2))
  also have "map (\<lambda>s. ''Generated: '' @ output_path s) SIZES =
          [''Generated: icons/icon-72.png'', ''Generated: icons/icon-96.png'',
            ''Generated: icons/icon-128.png'', ''Generated: icons/icon-144.png'',
            ''Generated: icons/icon-152.png'', ''Generated: icons/icon-192.png'',
            ''Generated: icons/icon-384.png'', ''Generated: icons/icon-512.png'']"
    by (simp add: eval_defs)
  finally have two: "stdout (trace (snd (run reference fs0))) =
           [''Source image: '' @ str w @ ''x'' @ str h,
            ''Generated: icons/icon-72.png'', ''Generated: icons/icon-96.png'',
            ''Generated: icons/icon-128.png'', ''Generated: icons/icon-144.png'',
            ''Generated: icons/icon-152.png'', ''Generated: icons/icon-192.png'',
            ''Generated: icons/icon-384.png'', ''Generated: icons/icon-512.png'',
            CHR 0x0A # ''All icons generated successfully!'',
            ''Update manifest.json to reference these icons.'']"
    by simp
  have "map (\<lambda>(p, icon). (p, img_size icon)) (saves (trace (snd (run reference fs0)))) =
          map (\<lambda>s. (output_path s, (s, s))) SIZES"
    using sq by (simp add: r saves_append saves_icon_events success_lines_def)
  also have "\<dots> = [(''icons/icon-72.png'', (72, 72)), (''icons/icon-96.png'', (96, 96)),
            (''icons/icon-128.png'', (128, 128)), (''icons/icon-144.png'', (144, 144)),
            (''icons/icon-152.png'', (152, 152)), (''icons/icon-192.png'', (192, 192)),
            (''icons/icon-384.png'', (384, 384)), (''icons/icon-512.png'', (512, 512))]"
    by (simp add: eval_defs)
  finally have three: "map (\<lambda>(p, icon). (p, img_size icon)) (saves (trace (snd (run reference fs0)))) =
           [(''icons/icon-72.png'', (72, 72)), (''icons/icon-96.png'', (96, 96)),
            (''icons/icon-128.png'', (128, 128)), (''icons/icon-144.png'', (144, 144)),
            (''icons/icon-152.png'', (152, 152)), (''icons/icon-192.png'', (192, 192)),
            (''icons/icon-384.png'', (384, 384)), (''icons/icon-512.png'', (512, 512))]" .
  have kept: "\<forall>j<length SIZES. fs_after reference img (take (length SIZES) SIZES) ?fs1
                  (output_path (SIZES ! j)) = Some (File (Some (resized reference img (SIZES ! j))))"
    using fs_after_kept[OF reference_save_contract reference_save_frame _ gt] by simp
  have four: "\<forall>sz\<in>set SIZES. \<exists>icon.
            fs (snd (run reference fs0)) (output_path sz) = Some (File (Some icon)) \<and>
            img_size icon = (sz, sz)"
  proof
    fix sz assume m: "sz \<in> set SIZES"
    then obtain j where j: "j < length SIZES" "SIZES ! j = sz"
      by (auto simp: in_set_conv_nth)
    with kept have "fs (snd (run reference fs0)) (output_path sz) =
                      Some (File (Some (resized reference img sz)))"
      by (auto simp: r)
    with sq[OF m] show "\<exists>icon.
            fs (snd (run reference fs0)) (output_path sz) = Some (File (Some icon)) \<and>
            img_size icon = (sz, sz)"
      by blast
  qed
  from one two three four show ?thesis by (intro conjI)
qed

theorem C7_any_aspect_ratio_witness:
  "fs_wide source = Some (File (Some banner)) \<and> img_size banner = (640, 480) \<and>
   (fs_wide ''icons'' = None \<or> fs_wide ''icons'' = Some Dir) \<and> outputs_free fs_wide \<and>
   fst (run reference fs_wide) = Inr PyNone \<and>
   stdout (trace (snd (run reference fs_wide))) =
           [''Source image: '' @ str 640 @ ''x'' @ str 480,
            ''Generated: icons/icon-72.png'', ''Generated: icons/icon-96.png'',
            ''Generated: icons/icon-128.png'', ''Generated: icons/icon-144.png'',
            ''Generated: icons/icon-152.png'', ''Generated: icons/icon-192.png'',
            ''Generated: icons/icon-384.png'', ''Generated: icons/icon-512.png'',
            CHR 0x0A # ''All icons generated successfully!'',
            ''Update manifest.json to reference these icons.''] \<and>
   map (\<lambda>(p, icon). (p, img_size icon)) (saves (trace (snd (run reference fs_wide)))) =
           [(''icons/icon-72.png'', (72, 72)), (''icons/icon-96.png'', (96, 96)),
            (''icons/icon-128.png'', (128, 128)), (''icons/icon-144.png'', (144, 144)),
            (''icons/icon-152.png'', (152, 152)), (''icons/icon-192.png'', (192, 192)),
            (''icons/icon-384.png'', (384, 384)), (''icons/icon-512.png'', (512, 512))] \<and>
   (\<exists>icon. fs (snd (run reference fs_wide)) (output_path 72) = Some (File (Some icon)) \<and>
            img_size icon = (72, 72))"
proof -
  have h1: "fs_wide source = Some (File (Some banner))"
    by (simp add: fs_wide_def source_def)
  note h2 = run_wide_decoded(4)
  have h3: "fs_wide ''icons'' = None \<or> fs_wide ''icons'' = Some Dir"
    by (simp add: fs_wide_def)
  note h4 = fs_wide_free
  note t = C7_any_aspect_ratio [OF h1 h2 h3 h4]
  have m: "(72::int) \<in> set SIZES" by (simp add: SIZES_def)
  note a = t [THEN conjunct1]
    and b = t [THEN conjunct2, THEN conjunct1]
    and c = t [THEN conjunct2, THEN conjunct2, THEN conjunct1]
    and d = t [THEN conjunct2, THEN conjunct2, THEN conjunct2, THEN bspec, OF m]
  show ?thesis
    by (intro conjI) (fact h1 h2 h3 h4 a b c d)+
qed

text \<open>
  C8. A run that returns without a reported error ends with the two lines "All icons
  generated successfully!" (after an empty line) and "Update manifest.json to reference
  these icons.". In every run, the only calls that write to the file system are
  \<^verbatim>\<open>os.makedirs\<close> on icons and \<^verbatim>\<open>save\<close> on one of the paths icons/icon-<size>.png;
  with the contracts of these two calls, every other path, manifest.json among them, is
  at the end what it was at the start. Besides the icon files, the icons directory itself
  is created.
\<close>

theorem C8_only_icons_written:
  "(fst (run E fs0) = Inr PyNone \<and> \<not> error_reported (trace (snd (run E fs0))) \<longrightarrow>
      (\<exists>evs. trace (snd (run E fs0)) =
         evs @ [Print (CHR 0x0A # ''All icons generated successfully!''),
                Print ''Update manifest.json to reference these icons.''])) \<and>
   (\<forall>ev\<in>set (trace (snd (run E fs0))). \<forall>p. writes_to ev = Some p \<longrightarrow>
      p = ''icons'' \<or> p \<in> output_path ` set SIZES) \<and>
   (makedirs_contract E \<and> save_frame E \<longrightarrow>
      (\<forall>q. q \<noteq> ''icons'' \<and> q \<notin> output_path ` set SIZES \<longrightarrow>
         fs (snd (run E fs0)) q = fs0 q) \<and>
      fs (snd (run E fs0)) ''manifest.json'' = fs0 ''manifest.json'')"
proof -
  have first: "fst (run E fs0) = Inr PyNone \<and> \<not> error_reported (trace (snd (run E fs0))) \<longrightarrow>
      (\<exists>evs. trace (snd (run E fs0)) =
         evs @ [Print (CHR 0x0A # ''All icons generated successfully!''),
                Print ''Update manifest.json to reference these icons.''])"
  proof
    assume a: "fst (run E fs0) = Inr PyNone \<and> \<not> error_reported (trace (snd (run E fs0)))"
    then obtain img where "trace (snd (run E fs0)) =
             ([Exists source, Makedirs ''icons'' True, Open source, Print (source_line img)]
               @ concat (map (icon_events E img) SIZES)) @ success_lines"
      using run_success[of E fs0] by auto
    then show "\<exists>evs. trace (snd (run E fs0)) =
         evs @ [Print (CHR 0x0A # ''All icons generated successfully!''),
                Print ''Update manifest.json to reference these icons.'']"
      unfolding success_lines_def by blast
  qed
  have rest: "(\<forall>ev\<in>set (trace (snd (run E fs0))). \<forall>p. writes_to ev = Some p \<longrightarrow>
      p = ''icons'' \<or> p \<in> output_path ` set SIZES) \<and>
   (makedirs_contract E \<and> save_frame E \<longrightarrow>
      (\<forall>q. q \<noteq> ''icons'' \<and> q \<notin> output_path ` set SIZES \<longrightarrow>
         fs (snd (run E fs0)) q = fs0 q))"
  proof (cases "fs0 source = None")
    case True
    then have "run E fs0 = (Inr PyNone,
        \<lparr>fs = fs0, trace = [Exists source, Print ''Error: speech-bubble.png not found'']\<rparr>)"
      by (simp add: run_defs source_def)
    then show ?thesis by simp
  next
    case False
    show ?thesis
    proof (cases "os_makedirs E ''icons'' True fs0")
      case (Inl e)
      from run_makedirs_raises[OF False Inl] show ?thesis by (simp add: at_try_def)
    next
      case (Inr fs1)
      have fs1: "makedirs_contract E \<Longrightarrow> fs1 = fs0(''icons'' \<mapsto> Dir)"
        using Inr by (auto simp: makedirs_contract_def)
      show ?thesis
      proof (cases "Image_open E source fs1")
        case (Inl e)
        from run_decode_fails[OF False Inr Inl] fs1 show ?thesis by auto
      next
        case op: (Inr img)
        from run_decoded[OF False Inr op] obtain k tl where k: "k \<le> length SIZES"
          and tr: "trace (snd (run E fs0)) =
             [Exists source, Makedirs ''icons'' True, Open source, Print (source_line img)]
               @ concat (map (icon_events E img) (take k SIZES)) @ tl"
          and fin: "k = length SIZES \<and> tl = success_lines \<or>
            k < length SIZES \<and>
              (\<exists>e ev. failed_step E img (SIZES ! k) e ev \<and>
                      tl = ev @ [Print (''Error generating icons: '' @ message e)])"
          and fr: "save_frame E \<longrightarrow>
              (\<forall>q. q \<notin> output_path ` set SIZES \<longrightarrow> fs (snd (run E fs0)) q = fs1 q)"
          by blast
        have pre: "output_path ` set (take k SIZES) \<subseteq> output_path ` set SIZES"
          using set_take_subset[of k SIZES] by blast
        have tlw: "p \<in> output_path ` set SIZES" if "ev \<in> set tl" "writes_to ev = Some p" for ev p
          using fin
        proof
          assume "k = length SIZES \<and> tl = success_lines"
          with that show ?thesis by (auto simp: success_lines_def)
        next
          assume "k < length SIZES \<and>
              (\<exists>e ev. failed_step E img (SIZES ! k) e ev \<and>
                      tl = ev @ [Print (''Error generating icons: '' @ message e)])"
          then obtain e evs where kl: "k < length SIZES"
            and fstep: "failed_step E img (SIZES ! k) e evs"
            and tl: "tl = evs @ [Print (''Error generating icons: '' @ message e)]"
            by blast
          from that tl have "ev \<in> set evs" by auto
          from writes_failed_step[OF fstep this that(2)] kl show ?thesis by simp
        qed
        have w: "\<forall>ev\<in>set (trace (snd (run E fs0))). \<forall>p. writes_to ev = Some p \<longrightarrow>
                   p = ''icons'' \<or> p \<in> output_path ` set SIZES"
        proof (intro ballI allI impI)
          fix ev p assume m: "ev \<in> set (trace (snd (run E fs0)))" and wp: "writes_to ev = Some p"
          from m tr have "ev \<in> set [Exists source, Makedirs ''icons'' True, Open source,
                                    Print (source_line img)]
                          \<or> ev \<in> set (concat (map (icon_events E img) (take k SIZES)))
                          \<or> ev \<in> set tl"
            by auto
          then show "p = ''icons'' \<or> p \<in> output_path ` set SIZES"
          proof (elim disjE)
            assume "ev \<in> set [Exists source, Makedirs ''icons'' True, Open source,
                                    Print (source_line img)]"
            with wp show ?thesis by auto
          next
            assume "ev \<in> set (concat (map (icon_events E img) (take k SIZES)))"
            from writes_icon_events[OF this wp] pre show ?thesis by blast
          next
            assume "ev \<in> set tl"
            from tlw[OF this wp] show ?thesis by simp
          qed
        qed
        have "makedirs_contract E \<and> save_frame E \<longrightarrow>
                (\<forall>q. q \<noteq> ''icons'' \<and> q \<notin> output_path ` set SIZES \<longrightarrow>
                   fs (snd (run E fs0)) q = fs0 q)"
          using fr fs1 by auto
        with w show ?thesis by blast
      qed
    qed
  qed
  from first rest output_path_other(3) show ?thesis by simp
qed

theorem C8_only_icons_written_witness:
  "fst (run reference fs_square) = Inr PyNone \<and>
   \<not> error_reported (trace (snd (run reference fs_square))) \<and>
   makedirs_contract reference \<and> save_frame reference \<and>
   (\<exists>evs. trace (snd (run reference fs_square)) =
         evs @ [Print (CHR 0x0A # ''All icons generated successfully!''),
                Print ''Update manifest.json to reference these icons.'']) \<and>
   fs (snd (run reference fs_square)) ''manifest.json'' = fs_square ''manifest.json'' \<and>
   fs (snd (run reference fs_square)) ''speech-bubble.png'' = fs_square ''speech-bubble.png''"
proof -
  note t = C8_only_icons_written [of reference fs_square]
  note h1 = run_square_ok(1) and h2 = run_square_ok(2)
    and h3 = reference_makedirs_contract and h4 = reference_save_frame
  have q: "''speech-bubble.png'' \<noteq> ''icons'' \<and> ''speech-bubble.png'' \<notin> output_path ` set SIZES"
    using output_path_other(1) by (simp add: source_def)
  note closing = t [THEN conjunct1, THEN mp, OF conjI, OF h1 h2]
  note frame = t [THEN conjunct2, THEN conjunct2, THEN mp, OF conjI, OF h3 h4]
  note manifest = frame [THEN conjunct2]
  note bubble_kept = frame [THEN conjunct1, THEN spec, THEN mp, OF q]
  show ?thesis
    by (intro conjI) (fact h1 h2 h3 h4 closing manifest bubble_kept)+
qed

text \<open>
  C9. On every path on which generate_icons() returns, that is when the source is missing
  or \<^verbatim>\<open>os.makedirs\<close> has returned, the value handed to the caller is None. The three
  paths differ only in what was printed: the missing-source line alone; a last line
  "Error generating icons: ..." after a failure of the processing; or no error line and
  the manifest reminder as the last line after full success.
\<close>

theorem C9_returns_None:
  assumes "fs0 source = None \<or> (\<exists>fs1. os_makedirs E ''icons'' True fs0 = Inr fs1)"
  shows "fst (run E fs0) = Inr PyNone \<and>
         (fs0 source = None \<and>
            stdout (trace (snd (run E fs0))) = [''Error: speech-bubble.png not found'']
          \<or> fs0 source \<noteq> None \<and>
            (\<exists>e. last (stdout (trace (snd (run E fs0)))) = ''Error generating icons: '' @ message e)
          \<or> fs0 source \<noteq> None \<and> \<not> error_reported (trace (snd (run E fs0))) \<and>
            last (stdout (trace (snd (run E fs0)))) =
              ''Update manifest.json to reference these icons.'')"
proof (cases "fs0 source = None")
  case True
  then have "run E fs0 = (Inr PyNone,
        \<lparr>fs = fs0, trace = [Exists source, Print ''Error: speech-bubble.png not found'']\<rparr>)"
    by (simp add: run_defs source_def)
  with True show ?thesis by simp
next
  case False
  with assms obtain fs1 where mk: "os_makedirs E ''icons'' True fs0 = Inr fs1" by blast
  show ?thesis
  proof (cases "Image_open E source fs1")
    case (Inl e)
    from run_decode_fails[OF False mk Inl] False show ?thesis by auto
  next
    case (Inr img)
    from run_decoded[OF False mk Inr] obtain k tl where
      r: "fst (run E fs0) = Inr PyNone"
      and tr: "trace (snd (run E fs0)) =
         [Exists source, Makedirs ''icons'' True, Open source, Print (source_line img)]
           @ concat (map (icon_events E img) (take k SIZES)) @ tl"
      and fin: "k = length SIZES \<and> tl = success_lines \<or>
        k < length SIZES \<and>
          (\<exists>e ev. failed_step E img (SIZES ! k) e ev \<and>
                  tl = ev @ [Print (''Error generating icons: '' @ message e)])"
      by blast
    from fin show ?thesis
    proof
      assume a: "k = length SIZES \<and> tl = success_lines"
      with tr have "\<not> error_reported (trace (snd (run E fs0)))"
        using stdout_no_error_success[of img E SIZES] by simp
      moreover from a tr have "last (stdout (trace (snd (run E fs0)))) =
              ''Update manifest.json to reference these icons.''"
        by (simp add: stdout_append success_lines_def)
      ultimately show ?thesis using r False by blast
    next
      assume "k < length SIZES \<and>
          (\<exists>e ev. failed_step E img (SIZES ! k) e ev \<and>
                  tl = ev @ [Print (''Error generating icons: '' @ message e)])"
      then obtain e ev where "tl = ev @ [Print (''Error generating icons: '' @ message e)]"
        by blast
      with tr have "last (stdout (trace (snd (run E fs0)))) = ''Error generating icons: '' @ message e"
        by (simp add: stdout_append)
      with r False show ?thesis by blast
    qed
  qed
qed

theorem C9_returns_None_witness:
  "fs_empty source = None \<and> fst (run reference fs_empty) = Inr PyNone \<and>
   (\<exists>fs1. os_makedirs reference ''icons'' True fs_corrupt = Inr fs1) \<and>
   fst (run reference fs_corrupt) = Inr PyNone \<and>
   (\<exists>fs1. os_makedirs reference ''icons'' True fs_square = Inr fs1) \<and>
   fst (run reference fs_square) = Inr PyNone"
proof -
  have h1: "fs_empty source = None" by (simp add: fs_empty_def)
  have h2: "\<exists>fs1. os_makedirs reference ''icons'' True fs_corrupt = Inr fs1"
    using run_corrupt(2) by blast
  have h3: "\<exists>fs1. os_makedirs reference ''icons'' True fs_square = Inr fs1"
    using run_square_decoded(2) by blast
  have d1: "fs_empty source = None \<or> (\<exists>fs1. os_makedirs reference ''icons'' True fs_empty = Inr fs1)"
    using h1 by blast
  have d2: "fs_corrupt source = None \<or> (\<exists>fs1. os_makedirs reference ''icons'' True fs_corrupt = Inr fs1)"
    using h2 by blast
  have d3: "fs_square source = None \<or> (\<exists>fs1. os_makedirs reference ''icons'' True fs_square = Inr fs1)"
    using h3 by blast
  show ?thesis
    using C9_returns_None [OF d1] C9_returns_None [OF d2] C9_returns_None [OF d3] h1 h2 h3
    by blast
qed

text \<open>
  C10. When the source file exists and \<^verbatim>\<open>os.makedirs\<close> returns, the call that creates
  the icons directory comes before the call that decodes the source image, and at the end
  of the run, whatever happened during decode, resample or save, icons is a directory. If
  the decode raises, the run returns after printing the error line, and the file system is
  the initial one with the icons directory added and no icon in it. The contracts of
  \<^verbatim>\<open>os.makedirs\<close> (the path becomes a directory) and \<^verbatim>\<open>save\<close> (only the target is
  touched) are hypotheses.
\<close>

theorem C10_directory_before_decode:
  assumes "makedirs_contract E" and "save_frame E"
    and "fs0 source \<noteq> None" and "os_makedirs E ''icons'' True fs0 = Inr fs1"
  shows "take 3 (trace (snd (run E fs0))) = [Exists source, Makedirs ''icons'' True, Open source] \<and>
         fs (snd (run E fs0)) ''icons'' = Some Dir \<and>
         (\<forall>e. Image_open E source fs1 = Inl e \<longrightarrow>
            fst (run E fs0) = Inr PyNone \<and>
            fs (snd (run E fs0)) = fs0(''icons'' \<mapsto> Dir) \<and>
            stdout (trace (snd (run E fs0))) = [''Error generating icons: '' @ message e])"
proof -
  from assms(1,4) have fs1: "fs1 = fs0(''icons'' \<mapsto> Dir)"
    by (auto simp: makedirs_contract_def)
  show ?thesis
  proof (cases "Image_open E source fs1")
    case (Inl e)
    from run_decode_fails[OF assms(3,4) Inl] fs1 Inl show ?thesis by simp
  next
    case (Inr img)
    from run_decoded[OF assms(3,4) Inr] assms(2) obtain k tl where
      tr: "trace (snd (run E fs0)) =
         [Exists source, Makedirs ''icons'' True, Open source, Print (source_line img)]
           @ concat (map (icon_events E img) (take k SIZES)) @ tl"
      and fr: "\<forall>q. q \<notin> output_path ` set SIZES \<longrightarrow> fs (snd (run E fs0)) q = fs1 q"
      by blast
    from fr output_path_other(2) fs1 have "fs (snd (run E fs0)) ''icons'' = Some Dir"
      by simp
    with tr Inr show ?thesis by simp
  qed
qed

theorem C10_directory_before_decode_witness:
  "makedirs_contract reference \<and> save_frame reference \<and> fs_corrupt source \<noteq> None \<and>
   os_makedirs reference ''icons'' True fs_corrupt = Inr (fs_corrupt(''icons'' \<mapsto> Dir)) \<and>
   fs_corrupt ''icons'' = None \<and>
   take 3 (trace (snd (run reference fs_corrupt))) =
     [Exists source, Makedirs ''icons'' True, Open source] \<and>
   fs (snd (run reference fs_corrupt)) ''icons'' = Some Dir \<and>
   stdout (trace (snd (run reference fs_corrupt))) =
     [''Error generating icons: cannot identify image file speech-bubble.png'']"
proof -
  have "fs_corrupt ''icons'' = None" by (simp add: fs_corrupt_def)
  then show ?thesis
    using C10_directory_before_decode [OF reference_makedirs_contract reference_save_frame
        run_corrupt(1,2)]
      reference_makedirs_contract reference_save_frame run_corrupt
    by simp
qed

end
